theory Spec2Isabelle
  imports Main
begin

section \<open>JavaScript values\<close>

text \<open>
  The handler of \<^verbatim>\<open>api/reddit-mcp.ts\<close> works on untyped values: the parsed request body,
  the parsed upstream body, the object literals it serialises and whatever a \<^verbatim>\<open>catch\<close>
  receives. They are modelled by one datatype. Strings are \<^typ>\<open>string\<close> (lists of 8-bit
  characters standing for the code units of a JavaScript string); an object is the list of
  its own properties in property order. The number type is a parameter \<^typ>\<open>'n\<close>: the
  handler copies numbers and serialises them, it never computes with them, so the text of a
  number is supplied by the runtime (see \<open>number_text\<close> below).
\<close>

datatype 'n jsvalue =
    JUndefined
  | JNull
  | JBool bool
  | JNum 'n
  | JStr string
  | JArr "'n jsvalue list"
  | JObj "(string \<times> 'n jsvalue) list"

text \<open>The \<^verbatim>\<open>typeof\<close> operator.\<close>

fun js_typeof :: "'n jsvalue \<Rightarrow> string" where
  "js_typeof JUndefined = ''undefined''"
| "js_typeof JNull = ''object''"
| "js_typeof (JBool b) = ''boolean''"
| "js_typeof (JNum n) = ''number''"
| "js_typeof (JStr s) = ''string''"
| "js_typeof (JArr vs) = ''object''"
| "js_typeof (JObj kvs) = ''object''"

text \<open>
  Reading a property \<^verbatim>\<open>v.p\<close>. On \<^verbatim>\<open>null\<close> and \<^verbatim>\<open>undefined\<close> the read raises a
  TypeError (\<open>nullish\<close>); on every other value it yields the own property, or
  \<^verbatim>\<open>undefined\<close>. On these values the handler reads only the names \<^verbatim>\<open>subreddit\<close>,
  \<^verbatim>\<open>query\<close>, \<^verbatim>\<open>size\<close>, \<^verbatim>\<open>before\<close>, \<^verbatim>\<open>after\<close> and \<^verbatim>\<open>message\<close>, none of which
  is a property of the built-in prototypes of plain objects, arrays, strings, numbers or
  booleans, so for them the own properties decide. An \<^verbatim>\<open>Error\<close> instance does inherit
  \<^verbatim>\<open>message\<close>; thrown errors have a model of their own below.
\<close>

fun nullish :: "'n jsvalue \<Rightarrow> bool" where
  "nullish JUndefined = True"
| "nullish JNull = True"
| "nullish v = False"

fun read_prop :: "'n jsvalue \<Rightarrow> string \<Rightarrow> 'n jsvalue" where
  "read_prop (JObj kvs) p = (case map_of kvs p of None \<Rightarrow> JUndefined | Some v \<Rightarrow> v)"
| "read_prop v p = JUndefined"

text \<open>The optional chain \<^verbatim>\<open>v?.p\<close>: \<^verbatim>\<open>undefined\<close> on a nullish base, never a fault.\<close>

definition optional_prop :: "'n jsvalue \<Rightarrow> string \<Rightarrow> 'n jsvalue" where
  "optional_prop v p = (if nullish v then JUndefined else read_prop v p)"

text \<open>
  What a \<^verbatim>\<open>catch\<close> can receive. \<open>Thrown_value v\<close> is a thrown primitive, array or plain
  object. \<open>Thrown_error own inherited\<close> is a thrown instance of \<^verbatim>\<open>Error\<close> or of a subclass
  (\<^verbatim>\<open>TypeError\<close>, \<^verbatim>\<open>DOMException\<close>, ...): \<open>own\<close> is its own property \<^verbatim>\<open>message\<close> if it
  has one (\<^verbatim>\<open>new Error("m")\<close> has, \<^verbatim>\<open>new Error()\<close> has not), and \<open>inherited\<close> is the
  \<^verbatim>\<open>message\<close> that its prototype chain provides, which is the empty string of
  \<^verbatim>\<open>Error.prototype\<close> unless a subclass supplies another.
\<close>

datatype 'n thrown =
    Thrown_value "'n jsvalue"
  | Thrown_error "'n jsvalue option" string

text \<open>The read \<^verbatim>\<open>err?.message\<close> on a caught value: own property first, then the prototype chain.\<close>

fun thrown_message :: "'n thrown \<Rightarrow> 'n jsvalue" where
  "thrown_message (Thrown_value v) = optional_prop v ''message''"
| "thrown_message (Thrown_error own inherited) =
     (case own of Some v \<Rightarrow> v | None \<Rightarrow> JStr inherited)"

text \<open>
  The result of awaiting a promise: it stays pending for ever, it rejects with a thrown
  value, or it fulfils with a value.
\<close>

datatype ('e, 'a) promise = Pending | Rejected 'e | Fulfilled 'a

section \<open>JSON.stringify\<close>

text \<open>
  \<^verbatim>\<open>JSON.stringify(value, null, space)\<close> after the ECMAScript algorithms QuoteJSONString,
  SerializeJSONProperty, SerializeJSONObject and SerializeJSONArray, for the values above
  (no \<^verbatim>\<open>toJSON\<close>, no replacer). \<open>gap\<close> is the indentation unit: empty for
  \<^verbatim>\<open>JSON.stringify(v)\<close>, two spaces for \<^verbatim>\<open>JSON.stringify(v, null, 2)\<close>.
\<close>

definition hex_digit :: "nat \<Rightarrow> char" where
  "hex_digit n = ''0123456789abcdef'' ! (n mod 16)"

definition quote_char :: "char \<Rightarrow> string" where
  "quote_char c =
     (if c = CHR 0x08 then [CHR 0x5C, CHR ''b'']
      else if c = CHR 0x09 then [CHR 0x5C, CHR ''t'']
      else if c = CHR 0x0A then [CHR 0x5C, CHR ''n'']
      else if c = CHR 0x0C then [CHR 0x5C, CHR ''f'']
      else if c = CHR 0x0D then [CHR 0x5C, CHR ''r'']
      else if c = CHR 0x22 then [CHR 0x5C, CHR 0x22]
      else if c = CHR 0x5C then [CHR 0x5C, CHR 0x5C]
      else if (of_char c :: nat) < 32
        then [CHR 0x5C, CHR ''u'', CHR ''0'', CHR ''0'',
              hex_digit (of_char c div 16), hex_digit (of_char c)]
      else [c])"

definition quote_json :: "string \<Rightarrow> string" where
  "quote_json s = [CHR 0x22] @ concat (map quote_char s) @ [CHR 0x22]"

fun join :: "string \<Rightarrow> string list \<Rightarrow> string" where
  "join sep [] = []"
| "join sep [x] = x"
| "join sep (x # y # ys) = x @ sep @ join sep (y # ys)"

definition wrap :: "string \<Rightarrow> string \<Rightarrow> string \<Rightarrow> string \<Rightarrow> string list \<Rightarrow> string" where
  "wrap opening closing gap stepback partial =
     (if partial = [] then opening @ closing
      else if gap = [] then opening @ join '','' partial @ closing
      else opening @ [CHR 0x0A] @ stepback @ gap
             @ join ('','' @ [CHR 0x0A] @ stepback @ gap) partial
             @ [CHR 0x0A] @ stepback @ closing)"

definition json_member :: "string \<Rightarrow> string \<Rightarrow> string \<Rightarrow> string" where
  "json_member gap key str = quote_json key @ '':'' @ (if gap = [] then [] else '' '') @ str"

fun serialize :: "('n \<Rightarrow> string) \<Rightarrow> string \<Rightarrow> string \<Rightarrow> 'n jsvalue \<Rightarrow> string option" where
  "serialize nt gap indent JUndefined = None"
| "serialize nt gap indent JNull = Some ''null''"
| "serialize nt gap indent (JBool b) = Some (if b then ''true'' else ''false'')"
| "serialize nt gap indent (JNum n) = Some (nt n)"
| "serialize nt gap indent (JStr s) = Some (quote_json s)"
| "serialize nt gap indent (JArr vs) =
     Some (wrap ''['' '']'' gap indent
       (map (\<lambda>v. case serialize nt gap (indent @ gap) v of None \<Rightarrow> ''null'' | Some str \<Rightarrow> str) vs))"
| "serialize nt gap indent (JObj kvs) =
     Some (wrap ''{'' ''}'' gap indent
       (concat (map (\<lambda>(k, v). case serialize nt gap (indent @ gap) v of
                                  None \<Rightarrow> [] | Some str \<Rightarrow> [json_member gap k str]) kvs)))"

definition JSON_stringify :: "('n \<Rightarrow> string) \<Rightarrow> string \<Rightarrow> 'n jsvalue \<Rightarrow> string option" where
  "JSON_stringify nt gap v = serialize nt gap [] v"

section \<open>Requests, responses, environment and runtime\<close>

text \<open>
  What the handler observes of the inbound \<^verbatim>\<open>Request\<close>: its method, the result of
  \<^verbatim>\<open>headers.get\<close> (\<open>None\<close> for \<^verbatim>\<open>null\<close>) and the result of \<^verbatim>\<open>await request.json()\<close>.
\<close>

record 'n request =
  request_method :: string
  headers_get :: "string \<Rightarrow> string option"
  request_json :: "('n thrown, 'n jsvalue) promise"

text \<open>
  The three variables read from \<^verbatim>\<open>process.env\<close>; \<open>None\<close> is \<^verbatim>\<open>undefined\<close>. The
  process environment is the only state the handler shares with other invocations.
\<close>

record env =
  MCP_WRAPPER_KEY :: "string option"
  REDDIT_BRIDGE_URL :: "string option"
  REDDIT_BRIDGE_BYPASS_SECRET :: "string option"

text \<open>The \<^verbatim>\<open>Response\<close> built by \<^verbatim>\<open>new Response(body, {status, headers})\<close>.\<close>

record response =
  res_status :: nat
  res_headers :: "(string \<times> string) list"
  res_body :: "string option"

text \<open>One call \<^verbatim>\<open>fetch(url, {method, headers, body})\<close>.\<close>

record fetch_call =
  fetch_url :: string
  fetch_method :: string
  fetch_headers :: "(string \<times> string) list"
  fetch_body :: "string option"

text \<open>
  The upstream \<^verbatim>\<open>Response\<close> as the handler reads it: \<^verbatim>\<open>ok\<close>, \<^verbatim>\<open>status\<close> and the
  result of \<^verbatim>\<open>await upstream.text()\<close>.
\<close>

record 'n upstream =
  upstream_ok :: bool
  upstream_status :: 'n
  upstream_text :: "('n thrown, string) promise"

text \<open>
  The primitives of the hosting runtime that the handler calls and that are not part of
  the repository. \<open>fetch\<close> gives the result of awaiting \<^verbatim>\<open>fetch(...)\<close>; \<open>JSON_parse\<close> is
  \<open>None\<close> where \<^verbatim>\<open>JSON.parse\<close> throws; \<open>number_text\<close> is the JSON text of a number;
  \<open>type_error v p\<close> is the value thrown on reading property \<open>p\<close> of the nullish value \<open>v\<close>.
\<close>

record 'n runtime =
  fetch :: "fetch_call \<Rightarrow> ('n thrown, 'n upstream) promise"
  JSON_parse :: "string \<Rightarrow> 'n jsvalue option"
  number_text :: "'n \<Rightarrow> string"
  type_error :: "'n jsvalue \<Rightarrow> string \<Rightarrow> 'n thrown"

text \<open>
  One invocation of the handler, with everything it does made explicit: the process
  environment as the invocation leaves it, whether the request body was consumed (by
  \<^verbatim>\<open>request.json()\<close>), the calls made to \<^verbatim>\<open>fetch\<close>, in order, and the outcome of the
  promise the handler returns. The outcome is \<open>Fulfilled\<close> with the response,
  \<open>Rejected\<close> with a value that was thrown and not caught, or \<open>Pending\<close> when the handler
  awaits a promise that never settles.
\<close>

record 'n run =
  run_env :: env
  run_body_used :: bool
  run_calls :: "fetch_call list"
  run_outcome :: "('n thrown, response) promise"

section \<open>The handler\<close>

text \<open>
  \<^verbatim>\<open>function json(data, status)\<close>: the single response constructor,
  \<^verbatim>\<open>new Response(JSON.stringify(data, null, 2), {status, headers: {"content-type": "application/json"}})\<close>.
\<close>

definition json :: "'n runtime \<Rightarrow> 'n jsvalue \<Rightarrow> nat \<Rightarrow> response" where
  "json rt data st =
     \<lparr>res_status = st,
      res_headers = [(''content-type'', ''application/json'')],
      res_body = JSON_stringify (number_text rt) ''  '' data\<rparr>"

text \<open>
  The object literal \<^verbatim>\<open>payload\<close>: the five properties are read from the parsed body
  and copied as they are; a property the body lacks is \<^verbatim>\<open>undefined\<close>.
\<close>

definition payload :: "'n jsvalue \<Rightarrow> 'n jsvalue" where
  "payload body =
     JObj [(''subreddit'', read_prop body ''subreddit''),
           (''query'', read_prop body ''query''),
           (''size'', read_prop body ''size''),
           (''before'', read_prop body ''before''),
           (''after'', read_prop body ''after'')]"

text \<open>
  The local object \<^verbatim>\<open>headers\<close> of the upstream call, in insertion order. A test
  \<^verbatim>\<open>if (x)\<close> on a string or \<^verbatim>\<open>undefined\<close> is written out here and below: it fails on
  \<open>None\<close> and on the empty string.
\<close>

definition upstream_headers :: "env \<Rightarrow> (string \<times> string) list" where
  "upstream_headers env =
     (''content-type'', ''application/json'') #
     (case REDDIT_BRIDGE_BYPASS_SECRET env of
        None \<Rightarrow> []
      | Some bypassSecret \<Rightarrow>
          if bypassSecret = [] then []
          else [(''x-vercel-protection-bypass'', bypassSecret)])"

text \<open>The arguments of the call \<^verbatim>\<open>fetch(bridgeUrl, {method: "POST", headers, body: JSON.stringify(payload)})\<close>.\<close>

definition upstream_call :: "'n runtime \<Rightarrow> env \<Rightarrow> string \<Rightarrow> 'n jsvalue \<Rightarrow> fetch_call" where
  "upstream_call rt env bridgeUrl body =
     \<lparr>fetch_url = bridgeUrl,
      fetch_method = ''POST'',
      fetch_headers = upstream_headers env,
      fetch_body = JSON_stringify (number_text rt) [] (payload body)\<rparr>"

text \<open>
  The value \<^verbatim>\<open>data\<close>: \<^verbatim>\<open>JSON.parse(text)\<close>, or the text itself where the parse throws.
\<close>

definition parsed_or_raw :: "'n runtime \<Rightarrow> string \<Rightarrow> 'n jsvalue" where
  "parsed_or_raw rt text = (case JSON_parse rt text of None \<Rightarrow> JStr text | Some v \<Rightarrow> v)"

text \<open>
  The body of the \<^verbatim>\<open>try\<close> block, in state-passing form. The block only reads the
  environment, so every exit leaves it as it was. A rejection of \<^verbatim>\<open>request.json()\<close> is
  caught by the inner \<^verbatim>\<open>catch\<close>, which discards the reason; a throw of \<^verbatim>\<open>JSON.parse\<close> is
  caught by the second inner \<^verbatim>\<open>catch\<close> (\<open>parsed_or_raw\<close>). The first property read,
  \<^verbatim>\<open>body.subreddit\<close>, throws on a nullish body; after it has succeeded the later reads of
  the same body cannot throw. An outcome \<open>Rejected\<close> is a value thrown out of the block.
\<close>

definition handler_try :: "'n runtime \<Rightarrow> env \<Rightarrow> 'n request \<Rightarrow> 'n run" where
  "handler_try rt env request =
    (if request_method request \<noteq> ''POST'' then
       \<lparr>run_env = env, run_body_used = False, run_calls = [],
        run_outcome = Fulfilled (json rt
          (JObj [(''error'', JStr ''Method not allowed. Use POST.'')]) 405)\<rparr>
     else if (case MCP_WRAPPER_KEY env of
                None \<Rightarrow> False
              | Some wrapperKey \<Rightarrow>
                  wrapperKey \<noteq> [] \<and>
                  (case headers_get request ''x-mcp-key'' of
                     None \<Rightarrow> True
                   | Some header \<Rightarrow> header = [] \<or> header \<noteq> wrapperKey)) then
       \<lparr>run_env = env, run_body_used = False, run_calls = [],
        run_outcome = Fulfilled (json rt (JObj [(''error'', JStr ''Unauthorised.'')]) 401)\<rparr>
     else
       (case REDDIT_BRIDGE_URL env of
          None \<Rightarrow>
            \<lparr>run_env = env, run_body_used = False, run_calls = [],
             run_outcome = Fulfilled (json rt
               (JObj [(''error'', JStr ''Server misconfigured: REDDIT_BRIDGE_URL not set.'')]) 500)\<rparr>
        | Some bridgeUrl \<Rightarrow>
            if bridgeUrl = [] then
              \<lparr>run_env = env, run_body_used = False, run_calls = [],
               run_outcome = Fulfilled (json rt
                 (JObj [(''error'', JStr ''Server misconfigured: REDDIT_BRIDGE_URL not set.'')]) 500)\<rparr>
            else
              (case request_json request of
                 Pending \<Rightarrow>
                   \<lparr>run_env = env, run_body_used = True, run_calls = [], run_outcome = Pending\<rparr>
               | Rejected reason \<Rightarrow>
                   \<lparr>run_env = env, run_body_used = True, run_calls = [],
                    run_outcome = Fulfilled (json rt
                      (JObj [(''error'', JStr ''Request body must be valid JSON.'')]) 400)\<rparr>
               | Fulfilled body \<Rightarrow>
                   if nullish body then
                     \<lparr>run_env = env, run_body_used = True, run_calls = [],
                      run_outcome = Rejected (type_error rt body ''subreddit'')\<rparr>
                   else if js_typeof (read_prop body ''subreddit'') \<noteq> ''string'' \<or>
                           js_typeof (read_prop body ''query'') \<noteq> ''string'' then
                     \<lparr>run_env = env, run_body_used = True, run_calls = [],
                      run_outcome = Fulfilled (json rt
                        (JObj [(''error'',
                                JStr ''Body must include string fields 'subreddit' and 'query'.'')])
                        400)\<rparr>
                   else
                     (let call = upstream_call rt env bridgeUrl body
                      in case fetch rt call of
                           Pending \<Rightarrow>
                             \<lparr>run_env = env, run_body_used = True, run_calls = [call],
                              run_outcome = Pending\<rparr>
                         | Rejected err \<Rightarrow>
                             \<lparr>run_env = env, run_body_used = True, run_calls = [call],
                              run_outcome = Rejected err\<rparr>
                         | Fulfilled upstream \<Rightarrow>
                             (case upstream_text upstream of
                                Pending \<Rightarrow>
                                  \<lparr>run_env = env, run_body_used = True, run_calls = [call],
                                   run_outcome = Pending\<rparr>
                              | Rejected err \<Rightarrow>
                                  \<lparr>run_env = env, run_body_used = True, run_calls = [call],
                                   run_outcome = Rejected err\<rparr>
                              | Fulfilled text \<Rightarrow>
                                  (let data = parsed_or_raw rt text
                                   in if \<not> upstream_ok upstream then
                                        \<lparr>run_env = env, run_body_used = True, run_calls = [call],
                                         run_outcome = Fulfilled (json rt
                                           (JObj [(''error'', JStr ''Upstream bridge error.''),
                                                  (''status'', JNum (upstream_status upstream)),
                                                  (''detail'', data)]) 502)\<rparr>
                                      else
                                        \<lparr>run_env = env, run_body_used = True, run_calls = [call],
                                         run_outcome = Fulfilled (json rt
                                           (JObj [(''ok'', JBool True),
                                                  (''bridge_status'', JNum (upstream_status upstream)),
                                                  (''bridge_url'', JStr bridgeUrl),
                                                  (''data'', data)]) 200)\<rparr>))))))"

text \<open>
  \<^verbatim>\<open>handler\<close> (the \<^verbatim>\<open>fetch\<close> method of the default export in the second copy of the
  file, which has the same body): the \<^verbatim>\<open>try\<close> block under its \<^verbatim>\<open>catch (err)\<close>. A value
  thrown out of the block becomes the catch-all response; a pending block stays pending.
\<close>

definition handler :: "'n runtime \<Rightarrow> env \<Rightarrow> 'n request \<Rightarrow> 'n run" where
  "handler rt env request =
     (case run_outcome (handler_try rt env request) of
        Rejected err \<Rightarrow>
          (handler_try rt env request)
            \<lparr>run_outcome := Fulfilled (json rt
               (JObj [(''error'', JStr ''Unexpected server error.''),
                      (''detail'',
                       if js_typeof (thrown_message err) = ''string''
                       then thrown_message err
                       else JStr ''Unknown error'')]) 500)\<rparr>
      | Pending \<Rightarrow> handler_try rt env request
      | Fulfilled res \<Rightarrow> handler_try rt env request)"

section \<open>Conditions on a request\<close>

text \<open>
  The conditions the specification names. A variable is \<open>configured\<close> when the handler's
  own test \<^verbatim>\<open>if (x)\<close> passes on it: it is set and not the empty string.
\<close>

definition configured :: "string option \<Rightarrow> bool" where
  "configured v = (case v of None \<Rightarrow> False | Some s \<Rightarrow> s \<noteq> [])"

text \<open>Authentication passed: no wrapper secret, or the header carries exactly the secret.\<close>

definition auth_passed :: "env \<Rightarrow> 'n request \<Rightarrow> bool" where
  "auth_passed env request =
     (if configured (MCP_WRAPPER_KEY env)
      then headers_get request ''x-mcp-key'' = MCP_WRAPPER_KEY env
      else True)"

text \<open>The request passes the method, authentication and configuration checks.\<close>

definition passes_checks :: "env \<Rightarrow> 'n request \<Rightarrow> bool" where
  "passes_checks env request =
     (request_method request = ''POST'' \<and> auth_passed env request \<and>
      configured (REDDIT_BRIDGE_URL env))"

definition has_string_fields :: "'n jsvalue \<Rightarrow> bool" where
  "has_string_fields b =
     (js_typeof (read_prop b ''subreddit'') = ''string'' \<and>
      js_typeof (read_prop b ''query'') = ''string'')"

text \<open>
  A valid request: POST, authentication passed, upstream URL configured, body parsed with
  string \<^verbatim>\<open>subreddit\<close> and \<^verbatim>\<open>query\<close>.
\<close>

definition valid_request :: "env \<Rightarrow> 'n request \<Rightarrow> bool" where
  "valid_request env request =
     (request_method request = ''POST'' \<and> auth_passed env request \<and>
      configured (REDDIT_BRIDGE_URL env) \<and>
      (case request_json request of
         Fulfilled b \<Rightarrow> has_string_fields b
       | Rejected reason \<Rightarrow> False
       | Pending \<Rightarrow> False))"

text \<open>
  A failure raised inside the pipeline: the value \<open>err\<close> is thrown in the \<^verbatim>\<open>try\<close> block
  and no inner \<^verbatim>\<open>catch\<close> receives it. There are three such places: the read of
  \<^verbatim>\<open>body.subreddit\<close> on a nullish parsed body, a rejection of \<^verbatim>\<open>fetch\<close> (a network
  error), and a rejection of \<^verbatim>\<open>upstream.text()\<close>.
\<close>

definition raises :: "'n runtime \<Rightarrow> env \<Rightarrow> 'n request \<Rightarrow> 'n thrown \<Rightarrow> bool" where
  "raises rt env request err =
     (request_method request = ''POST'' \<and> auth_passed env request \<and>
      (case REDDIT_BRIDGE_URL env of
         None \<Rightarrow> False
       | Some u \<Rightarrow>
           u \<noteq> [] \<and>
           (case request_json request of
              Pending \<Rightarrow> False
            | Rejected reason \<Rightarrow> False
            | Fulfilled b \<Rightarrow>
                if nullish b then err = type_error rt b ''subreddit''
                else has_string_fields b \<and>
                     (case fetch rt (upstream_call rt env u b) of
                        Pending \<Rightarrow> False
                      | Rejected e \<Rightarrow> err = e
                      | Fulfilled up \<Rightarrow> upstream_text up = Rejected err))))"

section \<open>A concrete runtime\<close>

text \<open>
  A small runtime on which the theorems below are exercised: numbers are naturals printed
  in decimal, \<^verbatim>\<open>JSON.parse\<close> knows two texts and throws on the rest, the TypeError of a
  property read on a nullish value carries V8's message, and \<^verbatim>\<open>fetch\<close> gives the same
  answer to every call.
\<close>

fun nat_text :: "nat \<Rightarrow> string" where
  "nat_text n =
     (if n < 10 then [''0123456789'' ! n]
      else nat_text (n div 10) @ [''0123456789'' ! (n mod 10)])"

declare nat_text.simps [simp del]

definition demo_type_error :: "nat jsvalue \<Rightarrow> string \<Rightarrow> nat thrown" where
  "demo_type_error v p =
     Thrown_error
       (Some (JStr (''Cannot read properties of '' @
                    (if v = JNull then ''null'' else ''undefined'') @
                    '' (reading '' @ [CHR 0x27] @ p @ [CHR 0x27] @ '')'')))
       []"

definition demo_runtime :: "(nat thrown, nat upstream) promise \<Rightarrow> nat runtime" where
  "demo_runtime answer =
     \<lparr>fetch = (\<lambda>call. answer),
      JSON_parse = (\<lambda>text. if text = ''[]'' then Some (JArr [])
                            else if text = ''null'' then Some JNull
                            else None),
      number_text = nat_text,
      type_error = demo_type_error\<rparr>"

definition demo_env :: env where
  "demo_env =
     \<lparr>MCP_WRAPPER_KEY = Some ''k1'',
      REDDIT_BRIDGE_URL = Some ''https://bridge.example/api/search'',
      REDDIT_BRIDGE_BYPASS_SECRET = Some ''s3''\<rparr>"

definition demo_request :: "string \<Rightarrow> (nat thrown, nat jsvalue) promise \<Rightarrow> nat request" where
  "demo_request m parsed =
     \<lparr>request_method = m,
      headers_get = [''x-mcp-key'' \<mapsto> ''k1''],
      request_json = parsed\<rparr>"

definition demo_body :: "nat jsvalue" where
  "demo_body =
     JObj [(''subreddit'', JStr ''test''), (''query'', JStr ''foo''), (''size'', JNum 25)]"

definition demo_upstream :: "bool \<Rightarrow> nat \<Rightarrow> string \<Rightarrow> nat upstream" where
  "demo_upstream okay st text =
     \<lparr>upstream_ok = okay, upstream_status = st, upstream_text = Fulfilled text\<rparr>"

section \<open>Basic facts\<close>

text \<open>Only \<^verbatim>\<open>undefined\<close> has no JSON text, and a property holding it is left out.\<close>

lemma serialize_None: "serialize nt gap ind v = None \<longleftrightarrow> v = JUndefined"
  by (cases v) simp_all

lemma members_filter:
  "concat (map (\<lambda>(k, v). case serialize nt gap ind v of None \<Rightarrow> [] | Some str \<Rightarrow> [json_member gap k str]) kvs)
   = concat (map (\<lambda>(k, v). case serialize nt gap ind v of None \<Rightarrow> [] | Some str \<Rightarrow> [json_member gap k str])
       (filter (\<lambda>(k, v). v \<noteq> JUndefined) kvs))"
  by (induction kvs) (auto split: option.splits simp: serialize_None)

lemma stringify_omits_undefined:
  "JSON_stringify nt gap (JObj kvs) = JSON_stringify nt gap (JObj (filter (\<lambda>(k, v). v \<noteq> JUndefined) kvs))"
  unfolding JSON_stringify_def
  using members_filter[where nt=nt and gap=gap and ind="[] @ gap" and kvs=kvs] by simp

text \<open>The response constructor, field by field.\<close>

lemma json_fields:
  "json rt data st =
     \<lparr>res_status = st, res_headers = [(''content-type'', ''application/json'')],
      res_body = JSON_stringify (number_text rt) ''  '' data\<rparr>"
  "res_status (json rt data st) = st"
  "res_headers (json rt data st) = [(''content-type'', ''application/json'')]"
  "res_body (json rt data st) = JSON_stringify (number_text rt) ''  '' data"
  by (simp_all add: json_def)

lemma stringify_object_Some: "JSON_stringify nt gap (JObj kvs) \<noteq> None"
  by (simp add: JSON_stringify_def)

text \<open>What a valid request provides, and the behaviour of the \<^verbatim>\<open>try\<close> block on one.\<close>

lemma passes_checksD:
  assumes "passes_checks env request"
  obtains u where "request_method request = ''POST''" "auth_passed env request"
    "REDDIT_BRIDGE_URL env = Some u" "u \<noteq> []"
  using assms by (auto simp: passes_checks_def configured_def split: option.splits)

lemma valid_requestD:
  assumes "valid_request env request"
  obtains u b where "request_method request = ''POST''" "auth_passed env request"
    "REDDIT_BRIDGE_URL env = Some u" "u \<noteq> []" "request_json request = Fulfilled b"
    "has_string_fields b" "\<not> nullish b"
proof -
  from assms obtain u where u: "REDDIT_BRIDGE_URL env = Some u" "u \<noteq> []"
    by (auto simp: valid_request_def configured_def split: option.splits)
  from assms obtain b where b: "request_json request = Fulfilled b" "has_string_fields b"
    by (auto simp: valid_request_def split: promise.splits)
  have "\<not> nullish b" using b(2) by (cases b) (simp_all add: has_string_fields_def)
  with assms u b show thesis
    by (intro that[of u b]) (simp_all add: valid_request_def)
qed

lemma valid_passes_checks: "valid_request env request \<Longrightarrow> passes_checks env request"
  by (simp add: valid_request_def passes_checks_def)

lemma auth_guard:
  "(case MCP_WRAPPER_KEY env of None \<Rightarrow> False
    | Some wrapperKey \<Rightarrow> wrapperKey \<noteq> [] \<and>
        (case headers_get request ''x-mcp-key'' of None \<Rightarrow> True
         | Some header \<Rightarrow> header = [] \<or> header \<noteq> wrapperKey))
   \<longleftrightarrow> \<not> auth_passed env request"
  by (auto simp: auth_passed_def configured_def split: option.splits)

lemma handler_try_valid:
  assumes "request_method request = ''POST''" "auth_passed env request"
    "REDDIT_BRIDGE_URL env = Some u" "u \<noteq> []" "request_json request = Fulfilled b"
    "has_string_fields b" "\<not> nullish b"
  shows "handler_try rt env request =
    \<lparr>run_env = env, run_body_used = True, run_calls = [upstream_call rt env u b],
     run_outcome =
       (case fetch rt (upstream_call rt env u b) of
          Pending \<Rightarrow> Pending
        | Rejected err \<Rightarrow> Rejected err
        | Fulfilled upstream \<Rightarrow>
           (case upstream_text upstream of
              Pending \<Rightarrow> Pending
            | Rejected err \<Rightarrow> Rejected err
            | Fulfilled text \<Rightarrow>
               if \<not> upstream_ok upstream then
                 Fulfilled (json rt
                    (JObj [(''error'', JStr ''Upstream bridge error.''),
                           (''status'', JNum (upstream_status upstream)),
                           (''detail'', parsed_or_raw rt text)]) 502)
               else
                 Fulfilled (json rt
                    (JObj [(''ok'', JBool True),
                           (''bridge_status'', JNum (upstream_status upstream)),
                           (''bridge_url'', JStr u),
                           (''data'', parsed_or_raw rt text)]) 200)))\<rparr>"
  using assms unfolding handler_try_def auth_guard
  by (simp add: has_string_fields_def Let_def split: promise.splits)

lemma handler_try_invalid:
  assumes "\<not> valid_request env request"
  shows "run_calls (handler_try rt env request) = []"
  using assms unfolding handler_try_def auth_guard
  by (auto simp: valid_request_def configured_def has_string_fields_def
      split: option.splits promise.splits)

text \<open>The top-level \<^verbatim>\<open>catch\<close> changes the outcome only.\<close>

lemma handler_effects:
  "run_calls (handler rt env request) = run_calls (handler_try rt env request)"
  "run_env (handler rt env request) = run_env (handler_try rt env request)"
  "run_body_used (handler rt env request) = run_body_used (handler_try rt env request)"
  by (simp_all add: handler_def split: promise.splits)

lemma handler_outcome:
  "run_outcome (handler_try rt env request) = Fulfilled res \<Longrightarrow>
     run_outcome (handler rt env request) = Fulfilled res"
  "run_outcome (handler_try rt env request) = Pending \<Longrightarrow>
     run_outcome (handler rt env request) = Pending"
  "run_outcome (handler_try rt env request) = Rejected err \<Longrightarrow>
     run_outcome (handler rt env request) =
       Fulfilled (json rt
         (JObj [(''error'', JStr ''Unexpected server error.''),
                (''detail'', if js_typeof (thrown_message err) = ''string''
                             then thrown_message err else JStr ''Unknown error'')]) 500)"
  by (simp_all add: handler_def)

text \<open>The calls of a valid request, and the headers of any call.\<close>

lemma calls_of_valid:
  assumes "valid_request env request"
  shows "\<exists>u b. REDDIT_BRIDGE_URL env = Some u \<and> request_json request = Fulfilled b \<and>
               run_calls (handler rt env request) = [upstream_call rt env u b]"
proof -
  from assms obtain u b where ub: "request_method request = ''POST''" "auth_passed env request"
    "REDDIT_BRIDGE_URL env = Some u" "u \<noteq> []" "request_json request = Fulfilled b"
    "has_string_fields b" "\<not> nullish b"
    by (rule valid_requestD)
  have "run_calls (handler_try rt env request) = [upstream_call rt env u b]"
    unfolding handler_try_valid[OF ub] by simp
  with ub show ?thesis by (simp add: handler_effects)
qed

lemma calls_headers:
  assumes "c \<in> set (run_calls (handler rt env request))"
  shows "fetch_headers c = upstream_headers env"
proof (cases "valid_request env request")
  case True
  from calls_of_valid[OF True, of rt] assms show ?thesis
    by (auto simp: upstream_call_def)
next
  case False
  with assms show ?thesis by (simp add: handler_effects handler_try_invalid)
qed

text \<open>The predicate \<open>raises\<close> holds exactly of the values thrown out of the \<^verbatim>\<open>try\<close> block.\<close>

lemma raises_iff:
  "raises rt env request err \<longleftrightarrow> run_outcome (handler_try rt env request) = Rejected err"
  unfolding handler_try_def raises_def auth_guard
  by (auto simp: Let_def has_string_fields_def split: option.splits promise.splits)

text \<open>The sample request is valid.\<close>

lemmas demo_defs = demo_env_def demo_request_def demo_runtime_def demo_body_def
  demo_upstream_def

lemma demo_valid: "valid_request demo_env (demo_request ''POST'' (Fulfilled demo_body))"
  by (simp add: valid_request_def auth_passed_def configured_def has_string_fields_def demo_defs)

section \<open>Field validation\<close>

text \<open>
  Past the method, authentication and configuration checks, a parsed body that is not
  nullish and lacks a string \<^verbatim>\<open>subreddit\<close> or \<^verbatim>\<open>query\<close> is answered with status 400;
  this covers booleans, numbers, strings, arrays and objects. On a nullish body the first
  property read throws, no call is made, and the answer is the catch-all 500.
\<close>

lemma handler_try_early:
  assumes "request_method request = ''POST''" "auth_passed env request"
    "REDDIT_BRIDGE_URL env = Some u" "u \<noteq> []" "request_json request = Fulfilled b"
  shows "nullish b \<Longrightarrow> handler_try rt env request =
           \<lparr>run_env = env, run_body_used = True, run_calls = [],
            run_outcome = Rejected (type_error rt b ''subreddit'')\<rparr>"
    and "\<not> nullish b \<Longrightarrow> \<not> has_string_fields b \<Longrightarrow>
         handler_try rt env request =
           \<lparr>run_env = env, run_body_used = True, run_calls = [],
            run_outcome = Fulfilled (json rt (JObj [(''error'',
              JStr ''Body must include string fields 'subreddit' and 'query'.'')]) 400)\<rparr>"
  using assms unfolding handler_try_def auth_guard
  by (auto simp add: has_string_fields_def)

lemma field_validation:
  assumes "passes_checks env request" "request_json request = Fulfilled b"
    "\<not> nullish b" "\<not> has_string_fields b"
  shows "run_calls (handler rt env request) = [] \<and>
         run_outcome (handler rt env request) =
           Fulfilled \<lparr>res_status = 400,
                      res_headers = [(''content-type'', ''application/json'')],
                      res_body = JSON_stringify (number_text rt) ''  ''
                        (JObj [(''error'',
                           JStr ''Body must include string fields 'subreddit' and 'query'.'')])\<rparr>"
proof -
  from assms(1) obtain u where u: "request_method request = ''POST''" "auth_passed env request"
    "REDDIT_BRIDGE_URL env = Some u" "u \<noteq> []"
    by (rule passes_checksD)
  from handler_try_early(2)[OF u assms(2,3,4), of rt] show ?thesis
    by (simp add: handler_def json_fields(1))
qed

lemma non_objects_lack_fields:
  "\<not> has_string_fields (JBool x)" "\<not> has_string_fields (JNum n)"
  "\<not> has_string_fields (JStr s)" "\<not> has_string_fields (JArr vs)"
  by (simp_all add: has_string_fields_def)

lemma field_validation_nullish:
  assumes "passes_checks env request" "request_json request = Fulfilled b" "nullish b"
  shows "run_calls (handler rt env request) = [] \<and>
         (\<exists>res. run_outcome (handler rt env request) = Fulfilled res \<and> res_status res = 500)"
proof -
  from assms(1) obtain u where u: "request_method request = ''POST''" "auth_passed env request"
    "REDDIT_BRIDGE_URL env = Some u" "u \<noteq> []"
    by (rule passes_checksD)
  from handler_try_early(1)[OF u assms(2,3), of rt] show ?thesis
    by (simp add: handler_def json_fields(2))
qed

text \<open>
  C1. The claim: every parsed body whose \<^verbatim>\<open>subreddit\<close> or \<^verbatim>\<open>query\<close> is missing or
  not a string is answered with status 400 and the field-validation message, also when the
  body is \<^verbatim>\<open>null\<close>. The code at the body \<^verbatim>\<open>null\<close>: reading \<^verbatim>\<open>body.subreddit\<close> throws a
  TypeError, which the top-level \<^verbatim>\<open>catch\<close> turns into status 500 with the error
  \<^verbatim>\<open>Unexpected server error.\<close> and the TypeError's message as detail; no call is made.
\<close>

theorem null_body_is_unexpected_server_error:
  \<open>run_calls (handler (demo_runtime (Fulfilled (demo_upstream True 200 ''[]''))) demo_env
       (demo_request ''POST'' (Fulfilled JNull))) = []
   \<and> run_outcome (handler (demo_runtime (Fulfilled (demo_upstream True 200 ''[]''))) demo_env
       (demo_request ''POST'' (Fulfilled JNull)))
     = Fulfilled (json (demo_runtime (Fulfilled (demo_upstream True 200 ''[]'')))
         (JObj [(''error'', JStr ''Unexpected server error.''),
                (''detail'', JStr ''Cannot read properties of null (reading 'subreddit')'')])
         500)
   \<and> run_outcome (handler (demo_runtime (Fulfilled (demo_upstream True 200 ''[]''))) demo_env
       (demo_request ''POST'' (Fulfilled JNull)))
     = Fulfilled
         \<lparr>res_status = 500,
          res_headers = [(''content-type'', ''application/json'')],
          res_body = Some (''{'' @ [CHR 0x0A] @
            ''  "error": "Unexpected server error.",'' @ [CHR 0x0A] @
            ''  "detail": "Cannot read properties of null (reading 'subreddit')"'' @ [CHR 0x0A] @
            ''}'')\<rparr>\<close>
  by (simp add: handler_def handler_try_def demo_env_def demo_request_def demo_runtime_def
      demo_type_error_def json_def JSON_stringify_def wrap_def json_member_def quote_json_def
      quote_char_def)

section \<open>Outbound calls and other effects\<close>

text \<open>
  C2 as claimed: every invocation, also one that ends at the method, authentication,
  configuration, body-parse or field-validation step, makes exactly one outbound call.
  A GET request refutes it: the method check returns before any call.
\<close>

theorem get_request_makes_no_call:
  "length (run_calls (handler (demo_runtime (Fulfilled (demo_upstream True 200 ''[]''))) demo_env
       (demo_request ''GET'' (Fulfilled demo_body)))) \<noteq> 1"
  by (simp add: handler_def handler_try_def demo_defs)

text \<open>
  C2 as amended: the handler makes at most one call to \<^verbatim>\<open>fetch\<close> per invocation. A valid
  request makes exactly one, the call built from the configured URL and the parsed body;
  a request that is not valid (it ends at the method, authentication, configuration,
  body-parse or field-validation step, or its body is nullish) makes none. The handler
  leaves the process environment as it found it, and it consumes the request body exactly
  when the request passes the method, authentication and configuration checks.
\<close>

theorem handler_fetch_calls:
  "(valid_request env request \<longrightarrow>
      (\<exists>u b. REDDIT_BRIDGE_URL env = Some u \<and> request_json request = Fulfilled b \<and>
             run_calls (handler rt env request) = [upstream_call rt env u b])) \<and>
   (\<not> valid_request env request \<longrightarrow> run_calls (handler rt env request) = []) \<and>
   length (run_calls (handler rt env request)) \<le> 1 \<and>
   run_env (handler rt env request) = env \<and>
   (run_body_used (handler rt env request) \<longleftrightarrow> passes_checks env request)"
proof -
  have calls: "(valid_request env request \<longrightarrow>
      (\<exists>u b. REDDIT_BRIDGE_URL env = Some u \<and> request_json request = Fulfilled b \<and>
             run_calls (handler rt env request) = [upstream_call rt env u b])) \<and>
   (\<not> valid_request env request \<longrightarrow> run_calls (handler rt env request) = []) \<and>
   length (run_calls (handler rt env request)) \<le> 1"
  proof (cases "valid_request env request")
    case True
    from calls_of_valid[OF True, of rt] show ?thesis using True by auto
  next
    case False
    then show ?thesis by (simp add: handler_effects handler_try_invalid)
  qed
  have env: "run_env (handler_try rt env request) = env"
    unfolding handler_try_def
    by (simp add: Let_def split: option.splits promise.splits)
  have used: "run_body_used (handler_try rt env request) \<longleftrightarrow> passes_checks env request"
    unfolding handler_try_def auth_guard
    by (auto simp: passes_checks_def configured_def Let_def split: option.splits promise.splits)
  from calls env used show ?thesis by (simp add: handler_effects)
qed

theorem handler_fetch_calls_witness:
  "length (run_calls (handler (demo_runtime Pending) demo_env
      (demo_request ''POST'' (Fulfilled demo_body)))) = 1 \<and>
   run_calls (handler (demo_runtime Pending) demo_env
      (demo_request ''POST'' (Rejected (Thrown_value JNull)))) = [] \<and>
   run_env (handler (demo_runtime Pending) demo_env
      (demo_request ''POST'' (Fulfilled demo_body))) = demo_env \<and>
   run_body_used (handler (demo_runtime Pending) demo_env
      (demo_request ''POST'' (Rejected (Thrown_value JNull)))) \<and>
   \<not> run_body_used (handler (demo_runtime Pending) demo_env
      (demo_request ''GET'' (Fulfilled demo_body)))"
proof -
  have n: "\<not> valid_request demo_env (demo_request ''POST'' (Rejected (Thrown_value JNull)))"
    by (simp add: valid_request_def demo_defs)
  have p: "passes_checks demo_env (demo_request ''POST'' (Rejected (Thrown_value JNull)))"
    by (simp add: passes_checks_def auth_passed_def configured_def demo_defs)
  have g: "\<not> passes_checks demo_env (demo_request ''GET'' (Fulfilled demo_body))"
    by (simp add: passes_checks_def demo_defs)
  from demo_valid n p g
    handler_fetch_calls[of demo_env "demo_request ''POST'' (Fulfilled demo_body)"
      "demo_runtime Pending"]
    handler_fetch_calls[of demo_env "demo_request ''POST'' (Rejected (Thrown_value JNull))"
      "demo_runtime Pending"]
    handler_fetch_calls[of demo_env "demo_request ''GET'' (Fulfilled demo_body)"
      "demo_runtime Pending"]
  show ?thesis by auto
qed

section \<open>Translation of the upstream outcome\<close>

text \<open>
  C5. For a valid request whose upstream call returns a response with the \<^verbatim>\<open>ok\<close> flag
  set and whose body text is read, the handler answers with status 200, the header
  \<^verbatim>\<open>content-type: application/json\<close>, and as body the serialisation of
  \<^verbatim>\<open>{ok: true, bridge_status, bridge_url, data}\<close>: the upstream status, the configured URL,
  and the parse of the body text, or the text itself where it does not parse. A body that
  does not parse is no error.
\<close>

theorem upstream_ok_response:
  assumes "valid_request env request"
    and "REDDIT_BRIDGE_URL env = Some u" and "request_json request = Fulfilled b"
    and "fetch rt (upstream_call rt env u b) = Fulfilled up"
    and "upstream_text up = Fulfilled text" and "upstream_ok up"
  shows "run_outcome (handler rt env request) =
           Fulfilled
             \<lparr>res_status = 200,
              res_headers = [(''content-type'', ''application/json'')],
              res_body = JSON_stringify (number_text rt) ''  ''
                (JObj [(''ok'', JBool True),
                       (''bridge_status'', JNum (upstream_status up)),
                       (''bridge_url'', JStr u),
                       (''data'', case JSON_parse rt text of Some v \<Rightarrow> v | None \<Rightarrow> JStr text)])\<rparr>
         \<and> run_outcome (handler rt env request) =
           Fulfilled (json rt
             (JObj [(''ok'', JBool True),
                    (''bridge_status'', JNum (upstream_status up)),
                    (''bridge_url'', JStr u),
                    (''data'', case JSON_parse rt text of Some v \<Rightarrow> v | None \<Rightarrow> JStr text)])
             200)"
proof -
  from assms(1) obtain u' b' where ub: "request_method request = ''POST''"
    "auth_passed env request" "REDDIT_BRIDGE_URL env = Some u'" "u' \<noteq> []"
    "request_json request = Fulfilled b'" "has_string_fields b'" "\<not> nullish b'"
    by (rule valid_requestD)
  with assms(2,3) have eq: "u' = u" "b' = b" by simp_all
  have "run_outcome (handler_try rt env request) =
      Fulfilled (json rt
         (JObj [(''ok'', JBool True), (''bridge_status'', JNum (upstream_status up)),
                (''bridge_url'', JStr u), (''data'', parsed_or_raw rt text)]) 200)"
    unfolding handler_try_valid[OF ub] eq using assms(4-6) by simp
  then have "run_outcome (handler rt env request) =
      Fulfilled (json rt
         (JObj [(''ok'', JBool True), (''bridge_status'', JNum (upstream_status up)),
                (''bridge_url'', JStr u),
                (''data'', case JSON_parse rt text of Some v \<Rightarrow> v | None \<Rightarrow> JStr text)]) 200)"
    by (simp add: handler_outcome(1) parsed_or_raw_def split: option.splits)
  then show ?thesis by (simp add: json_fields(1))
qed

theorem upstream_ok_response_witness:
  \<open>run_outcome (handler (demo_runtime (Fulfilled (demo_upstream True 200 ''plain text''))) demo_env
          (demo_request ''POST'' (Fulfilled demo_body)))
     = Fulfilled
         \<lparr>res_status = 200,
          res_headers = [(''content-type'', ''application/json'')],
          res_body = Some (''{'' @ [CHR 0x0A] @
            ''  "ok": true,'' @ [CHR 0x0A] @
            ''  "bridge_status": 200,'' @ [CHR 0x0A] @
            ''  "bridge_url": "https://bridge.example/api/search",'' @ [CHR 0x0A] @
            ''  "data": "plain text"'' @ [CHR 0x0A] @
            ''}'')\<rparr>
   \<and> run_outcome (handler (demo_runtime (Fulfilled (demo_upstream True 200 ''[]''))) demo_env
          (demo_request ''POST'' (Fulfilled demo_body)))
     = Fulfilled
         \<lparr>res_status = 200,
          res_headers = [(''content-type'', ''application/json'')],
          res_body = Some (''{'' @ [CHR 0x0A] @
            ''  "ok": true,'' @ [CHR 0x0A] @
            ''  "bridge_status": 200,'' @ [CHR 0x0A] @
            ''  "bridge_url": "https://bridge.example/api/search",'' @ [CHR 0x0A] @
            ''  "data": []'' @ [CHR 0x0A] @
            ''}'')\<rparr>\<close>
proof -
  have u: "REDDIT_BRIDGE_URL demo_env = Some ''https://bridge.example/api/search''"
    by (simp add: demo_env_def)
  have b: "request_json (demo_request ''POST'' (Fulfilled demo_body)) = Fulfilled demo_body"
    by (simp add: demo_request_def)
  have f: "fetch (demo_runtime (Fulfilled r)) c = Fulfilled r" for r :: "nat upstream" and c
    by (simp add: demo_runtime_def)
  have t: "upstream_text (demo_upstream True 200 x) = Fulfilled x"
    "upstream_ok (demo_upstream True 200 x)" for x
    by (simp_all add: demo_upstream_def)
  from upstream_ok_response[OF demo_valid u b f t, of "''plain text''", THEN conjunct1]
       upstream_ok_response[OF demo_valid u b f t, of "''[]''", THEN conjunct1]
  show ?thesis
    by (simp add: demo_runtime_def demo_upstream_def JSON_stringify_def wrap_def json_member_def
        quote_json_def quote_char_def nat_text.simps)
qed

text \<open>
  C6. For a valid request whose upstream call returns a response without the \<^verbatim>\<open>ok\<close>
  flag and whose body text is read, the handler answers with status 502, the header
  \<^verbatim>\<open>content-type: application/json\<close>, and as body the serialisation of
  \<^verbatim>\<open>{error: "Upstream bridge error.", status, detail}\<close>: the upstream status, and the
  parse of the upstream body text, or the text itself where it does not parse.
\<close>

theorem upstream_not_ok_response:
  assumes "valid_request env request"
    and "REDDIT_BRIDGE_URL env = Some u" and "request_json request = Fulfilled b"
    and "fetch rt (upstream_call rt env u b) = Fulfilled up"
    and "upstream_text up = Fulfilled text" and "\<not> upstream_ok up"
  shows "run_outcome (handler rt env request) =
           Fulfilled
             \<lparr>res_status = 502,
              res_headers = [(''content-type'', ''application/json'')],
              res_body = JSON_stringify (number_text rt) ''  ''
                (JObj [(''error'', JStr ''Upstream bridge error.''),
                       (''status'', JNum (upstream_status up)),
                       (''detail'', case JSON_parse rt text of Some v \<Rightarrow> v | None \<Rightarrow> JStr text)])\<rparr>
         \<and> run_outcome (handler rt env request) =
           Fulfilled (json rt
             (JObj [(''error'', JStr ''Upstream bridge error.''),
                    (''status'', JNum (upstream_status up)),
                    (''detail'', case JSON_parse rt text of Some v \<Rightarrow> v | None \<Rightarrow> JStr text)])
             502)"
proof -
  from assms(1) obtain u' b' where ub: "request_method request = ''POST''"
    "auth_passed env request" "REDDIT_BRIDGE_URL env = Some u'" "u' \<noteq> []"
    "request_json request = Fulfilled b'" "has_string_fields b'" "\<not> nullish b'"
    by (rule valid_requestD)
  with assms(2,3) have eq: "u' = u" "b' = b" by simp_all
  have "run_outcome (handler_try rt env request) =
      Fulfilled (json rt
         (JObj [(''error'', JStr ''Upstream bridge error.''),
                (''status'', JNum (upstream_status up)),
                (''detail'', parsed_or_raw rt text)]) 502)"
    unfolding handler_try_valid[OF ub] eq using assms(4-6) by simp
  then have "run_outcome (handler rt env request) =
      Fulfilled (json rt
         (JObj [(''error'', JStr ''Upstream bridge error.''),
                (''status'', JNum (upstream_status up)),
                (''detail'', case JSON_parse rt text of Some v \<Rightarrow> v | None \<Rightarrow> JStr text)]) 502)"
    by (simp add: handler_outcome(1) parsed_or_raw_def split: option.splits)
  then show ?thesis by (simp add: json_fields(1))
qed

theorem upstream_not_ok_response_witness:
  \<open>run_outcome (handler (demo_runtime (Fulfilled (demo_upstream False 503 ''Service Unavailable'')))
          demo_env (demo_request ''POST'' (Fulfilled demo_body)))
     = Fulfilled
         \<lparr>res_status = 502,
          res_headers = [(''content-type'', ''application/json'')],
          res_body = Some (''{'' @ [CHR 0x0A] @
            ''  "error": "Upstream bridge error.",'' @ [CHR 0x0A] @
            ''  "status": 503,'' @ [CHR 0x0A] @
            ''  "detail": "Service Unavailable"'' @ [CHR 0x0A] @
            ''}'')\<rparr>
   \<and> run_outcome (handler (demo_runtime (Fulfilled (demo_upstream False 503 ''null''))) demo_env
          (demo_request ''POST'' (Fulfilled demo_body)))
     = Fulfilled
         \<lparr>res_status = 502,
          res_headers = [(''content-type'', ''application/json'')],
          res_body = Some (''{'' @ [CHR 0x0A] @
            ''  "error": "Upstream bridge error.",'' @ [CHR 0x0A] @
            ''  "status": 503,'' @ [CHR 0x0A] @
            ''  "detail": null'' @ [CHR 0x0A] @
            ''}'')\<rparr>\<close>
proof -
  have u: "REDDIT_BRIDGE_URL demo_env = Some ''https://bridge.example/api/search''"
    by (simp add: demo_env_def)
  have b: "request_json (demo_request ''POST'' (Fulfilled demo_body)) = Fulfilled demo_body"
    by (simp add: demo_request_def)
  have f: "fetch (demo_runtime (Fulfilled r)) c = Fulfilled r" for r :: "nat upstream" and c
    by (simp add: demo_runtime_def)
  have t: "upstream_text (demo_upstream False 503 x) = Fulfilled x"
    "\<not> upstream_ok (demo_upstream False 503 x)" for x
    by (simp_all add: demo_upstream_def)
  from upstream_not_ok_response[OF demo_valid u b f t, of "''Service Unavailable''", THEN conjunct1]
       upstream_not_ok_response[OF demo_valid u b f t, of "''null''", THEN conjunct1]
  show ?thesis
    by (simp add: demo_runtime_def demo_upstream_def JSON_stringify_def wrap_def json_member_def
        quote_json_def quote_char_def nat_text.simps)
qed

section \<open>Wrapper authentication\<close>

text \<open>No request that passes authentication is answered with status 401.\<close>

lemma status_not_401:
  assumes "auth_passed env request"
    and "run_outcome (handler rt env request) = Fulfilled res"
  shows "res_status res \<noteq> 401"
  using assms unfolding handler_def handler_try_def auth_guard
  by (auto simp: json_def Let_def split: if_splits option.splits promise.splits)

text \<open>
  C7. With a wrapper secret configured, a POST request whose \<^verbatim>\<open>x-mcp-key\<close> header is
  absent or differs from the secret is answered with status 401, the header
  \<^verbatim>\<open>content-type: application/json\<close> and the serialisation of
  \<^verbatim>\<open>{error: "Unauthorised."}\<close>, without any upstream call and without reading the body; a
  request whose header equals the secret is never answered with 401. With no wrapper
  secret configured the check is skipped and no request is answered with 401.
\<close>

theorem wrapper_authentication:
  "(request_method request = ''POST'' \<and> configured (MCP_WRAPPER_KEY env) \<and>
      headers_get request ''x-mcp-key'' \<noteq> MCP_WRAPPER_KEY env
      \<longrightarrow> run_calls (handler rt env request) = [] \<and>
          \<not> run_body_used (handler rt env request) \<and>
          run_outcome (handler rt env request) =
            Fulfilled
              \<lparr>res_status = 401,
               res_headers = [(''content-type'', ''application/json'')],
               res_body = JSON_stringify (number_text rt) ''  ''
                 (JObj [(''error'', JStr ''Unauthorised.'')])\<rparr> \<and>
          run_outcome (handler rt env request) =
            Fulfilled (json rt (JObj [(''error'', JStr ''Unauthorised.'')]) 401)) \<and>
   (configured (MCP_WRAPPER_KEY env) \<and>
      headers_get request ''x-mcp-key'' = MCP_WRAPPER_KEY env \<and>
      run_outcome (handler rt env request) = Fulfilled res
      \<longrightarrow> res_status res \<noteq> 401) \<and>
   (\<not> configured (MCP_WRAPPER_KEY env) \<and>
      run_outcome (handler rt env request) = Fulfilled res
      \<longrightarrow> res_status res \<noteq> 401)"
proof (intro conjI impI)
  assume a: "request_method request = ''POST'' \<and> configured (MCP_WRAPPER_KEY env) \<and>
      headers_get request ''x-mcp-key'' \<noteq> MCP_WRAPPER_KEY env"
  then have n: "\<not> auth_passed env request" by (simp add: auth_passed_def)
  with a have t: "handler_try rt env request =
      \<lparr>run_env = env, run_body_used = False, run_calls = [],
       run_outcome = Fulfilled (json rt (JObj [(''error'', JStr ''Unauthorised.'')]) 401)\<rparr>"
    unfolding handler_try_def auth_guard by simp
  then show "run_calls (handler rt env request) = []"
    and "\<not> run_body_used (handler rt env request)"
    by (simp_all add: handler_effects)
  from t show "run_outcome (handler rt env request) =
      Fulfilled (json rt (JObj [(''error'', JStr ''Unauthorised.'')]) 401)"
    by (simp add: handler_outcome(1))
  then show "run_outcome (handler rt env request) =
      Fulfilled
        \<lparr>res_status = 401,
         res_headers = [(''content-type'', ''application/json'')],
         res_body = JSON_stringify (number_text rt) ''  ''
           (JObj [(''error'', JStr ''Unauthorised.'')])\<rparr>"
    by (simp add: json_fields(1))
next
  assume a: "configured (MCP_WRAPPER_KEY env) \<and>
      headers_get request ''x-mcp-key'' = MCP_WRAPPER_KEY env \<and>
      run_outcome (handler rt env request) = Fulfilled res"
  then have "auth_passed env request" by (simp add: auth_passed_def)
  moreover from a have "run_outcome (handler rt env request) = Fulfilled res" by simp
  ultimately show "res_status res \<noteq> 401" by (rule status_not_401)
next
  assume a: "\<not> configured (MCP_WRAPPER_KEY env) \<and>
      run_outcome (handler rt env request) = Fulfilled res"
  then have "auth_passed env request" by (simp add: auth_passed_def)
  moreover from a have "run_outcome (handler rt env request) = Fulfilled res" by simp
  ultimately show "res_status res \<noteq> 401" by (rule status_not_401)
qed

theorem wrapper_authentication_witness:
  \<open>run_outcome (handler (demo_runtime Pending) demo_env
      \<lparr>request_method = ''POST'', headers_get = [''x-mcp-key'' \<mapsto> ''k2''],
       request_json = Fulfilled demo_body\<rparr>)
     = Fulfilled
         \<lparr>res_status = 401,
          res_headers = [(''content-type'', ''application/json'')],
          res_body = Some (''{'' @ [CHR 0x0A] @ ''  "error": "Unauthorised."'' @ [CHR 0x0A] @ ''}'')\<rparr> \<and>
   run_outcome (handler (demo_runtime Pending) demo_env
      \<lparr>request_method = ''POST'', headers_get = Map.empty, request_json = Fulfilled demo_body\<rparr>)
     = Fulfilled
         \<lparr>res_status = 401,
          res_headers = [(''content-type'', ''application/json'')],
          res_body = Some (''{'' @ [CHR 0x0A] @ ''  "error": "Unauthorised."'' @ [CHR 0x0A] @ ''}'')\<rparr> \<and>
   run_outcome (handler (demo_runtime (Fulfilled (demo_upstream True 200 ''[]''))) demo_env
      (demo_request ''POST'' (Fulfilled demo_body)))
     \<noteq> Fulfilled
         \<lparr>res_status = 401,
          res_headers = [(''content-type'', ''application/json'')],
          res_body = Some (''{'' @ [CHR 0x0A] @ ''  "error": "Unauthorised."'' @ [CHR 0x0A] @ ''}'')\<rparr> \<and>
   run_outcome (handler (demo_runtime Pending) (demo_env\<lparr>MCP_WRAPPER_KEY := None\<rparr>)
      \<lparr>request_method = ''GET'', headers_get = Map.empty, request_json = Fulfilled demo_body\<rparr>)
     \<noteq> Fulfilled
         \<lparr>res_status = 401,
          res_headers = [(''content-type'', ''application/json'')],
          res_body = Some (''{'' @ [CHR 0x0A] @ ''  "error": "Unauthorised."'' @ [CHR 0x0A] @ ''}'')\<rparr>\<close>
proof -
  note w = wrapper_authentication[where rt = "demo_runtime Pending"]
  have s: \<open>JSON_stringify (number_text (demo_runtime Pending)) ''  ''
              (JObj [(''error'', JStr ''Unauthorised.'')])
           = Some (''{'' @ [CHR 0x0A] @ ''  "error": "Unauthorised."'' @ [CHR 0x0A] @ ''}'')\<close>
    by (simp add: JSON_stringify_def wrap_def json_member_def quote_json_def quote_char_def)
  have c: "configured (MCP_WRAPPER_KEY demo_env)" "MCP_WRAPPER_KEY demo_env = Some ''k1''"
    "\<not> configured (MCP_WRAPPER_KEY (demo_env\<lparr>MCP_WRAPPER_KEY := None\<rparr>))"
    by (simp_all add: configured_def demo_env_def)
  have 1: "run_outcome (handler (demo_runtime Pending) demo_env
      \<lparr>request_method = ''POST'', headers_get = [''x-mcp-key'' \<mapsto> ''k2''],
       request_json = Fulfilled demo_body\<rparr>)
     = Fulfilled
         \<lparr>res_status = 401,
          res_headers = [(''content-type'', ''application/json'')],
          res_body = JSON_stringify (number_text (demo_runtime Pending)) ''  ''
              (JObj [(''error'', JStr ''Unauthorised.'')])\<rparr>"
    using c w[of "\<lparr>request_method = ''POST'', headers_get = [''x-mcp-key'' \<mapsto> ''k2''],
                 request_json = Fulfilled demo_body\<rparr>" demo_env]
    by simp
  have 2: "run_outcome (handler (demo_runtime Pending) demo_env
      \<lparr>request_method = ''POST'', headers_get = Map.empty, request_json = Fulfilled demo_body\<rparr>)
     = Fulfilled
         \<lparr>res_status = 401,
          res_headers = [(''content-type'', ''application/json'')],
          res_body = JSON_stringify (number_text (demo_runtime Pending)) ''  ''
              (JObj [(''error'', JStr ''Unauthorised.'')])\<rparr>"
    using c w[of "\<lparr>request_method = ''POST'', headers_get = Map.empty,
                 request_json = Fulfilled demo_body\<rparr>" demo_env]
    by simp
  have h: "headers_get (demo_request ''POST'' (Fulfilled demo_body)) ''x-mcp-key''
             = MCP_WRAPPER_KEY demo_env"
    by (simp add: demo_request_def demo_env_def)
  have 3: "run_outcome (handler (demo_runtime (Fulfilled (demo_upstream True 200 ''[]''))) demo_env
      (demo_request ''POST'' (Fulfilled demo_body))) \<noteq> Fulfilled res"
    if "res_status res = 401" for res
    using that c(1) h
      wrapper_authentication[of "demo_request ''POST'' (Fulfilled demo_body)" demo_env
        "demo_runtime (Fulfilled (demo_upstream True 200 ''[]''))" res]
    by blast
  have 4: "run_outcome (handler (demo_runtime Pending) (demo_env\<lparr>MCP_WRAPPER_KEY := None\<rparr>)
      \<lparr>request_method = ''GET'', headers_get = Map.empty, request_json = Fulfilled demo_body\<rparr>)
      \<noteq> Fulfilled res"
    if "res_status res = 401" for res
    using that c(3)
      w[of "\<lparr>request_method = ''GET'', headers_get = Map.empty,
                 request_json = Fulfilled demo_body\<rparr>" "demo_env\<lparr>MCP_WRAPPER_KEY := None\<rparr>" res]
    by blast
  show ?thesis
    unfolding 1 2 s using 3 4 by simp
qed

section \<open>Variables set to the empty string\<close>

text \<open>
  Each of the three variables is tested by truthiness, so the empty string behaves as an
  unset variable: the \<^verbatim>\<open>try\<close> block does the same, up to the environment it hands back.
\<close>

lemma handler_try_empty_wrapper_key:
  assumes "MCP_WRAPPER_KEY env = Some []"
  shows "handler_try rt (env\<lparr>MCP_WRAPPER_KEY := None\<rparr>) request =
         (handler_try rt env request)\<lparr>run_env := env\<lparr>MCP_WRAPPER_KEY := None\<rparr>\<rparr>"
  using assms
  by (simp add: handler_try_def upstream_call_def upstream_headers_def Let_def
      split: option.splits promise.splits)

lemma handler_try_empty_bypass:
  assumes "REDDIT_BRIDGE_BYPASS_SECRET env = Some []"
  shows "handler_try rt (env\<lparr>REDDIT_BRIDGE_BYPASS_SECRET := None\<rparr>) request =
         (handler_try rt env request)\<lparr>run_env := env\<lparr>REDDIT_BRIDGE_BYPASS_SECRET := None\<rparr>\<rparr>"
  using assms
  by (simp add: handler_try_def upstream_call_def upstream_headers_def Let_def
      split: option.splits promise.splits)

lemma handler_same_behaviour:
  assumes "handler_try rt env' request = (handler_try rt env request)\<lparr>run_env := env'\<rparr>"
  shows "run_calls (handler rt env request) = run_calls (handler rt env' request) \<and>
         run_body_used (handler rt env request) = run_body_used (handler rt env' request) \<and>
         run_outcome (handler rt env request) = run_outcome (handler rt env' request)"
  unfolding handler_def assms by (simp split: promise.splits)

text \<open>
  C9. With \<^verbatim>\<open>MCP_WRAPPER_KEY\<close> set to the empty string the handler behaves exactly as
  with the variable unset (same calls, same use of the request body, same outcome), and
  answers no request with 401. With \<^verbatim>\<open>REDDIT_BRIDGE_BYPASS_SECRET\<close> set to the empty
  string it behaves as with the variable unset, and no call carries the header
  \<^verbatim>\<open>x-vercel-protection-bypass\<close>. With \<^verbatim>\<open>REDDIT_BRIDGE_URL\<close> set to the empty string a POST
  request that passes authentication gets the 500 misconfiguration response, and no call
  is made.
\<close>

theorem empty_string_variables:
  "(MCP_WRAPPER_KEY env = Some [] \<longrightarrow>
      run_calls (handler rt env request) =
        run_calls (handler rt (env\<lparr>MCP_WRAPPER_KEY := None\<rparr>) request) \<and>
      run_body_used (handler rt env request) =
        run_body_used (handler rt (env\<lparr>MCP_WRAPPER_KEY := None\<rparr>) request) \<and>
      run_outcome (handler rt env request) =
        run_outcome (handler rt (env\<lparr>MCP_WRAPPER_KEY := None\<rparr>) request) \<and>
      (\<forall>res. run_outcome (handler rt env request) = Fulfilled res \<longrightarrow> res_status res \<noteq> 401)) \<and>
   (REDDIT_BRIDGE_BYPASS_SECRET env = Some [] \<longrightarrow>
      run_calls (handler rt env request) =
        run_calls (handler rt (env\<lparr>REDDIT_BRIDGE_BYPASS_SECRET := None\<rparr>) request) \<and>
      run_body_used (handler rt env request) =
        run_body_used (handler rt (env\<lparr>REDDIT_BRIDGE_BYPASS_SECRET := None\<rparr>) request) \<and>
      run_outcome (handler rt env request) =
        run_outcome (handler rt (env\<lparr>REDDIT_BRIDGE_BYPASS_SECRET := None\<rparr>) request) \<and>
      (\<forall>c \<in> set (run_calls (handler rt env request)).
         map_of (fetch_headers c) ''x-vercel-protection-bypass'' = None)) \<and>
   (REDDIT_BRIDGE_URL env = Some [] \<and> request_method request = ''POST'' \<and>
      auth_passed env request \<longrightarrow>
      run_calls (handler rt env request) = [] \<and>
      run_outcome (handler rt env request) =
        Fulfilled
          \<lparr>res_status = 500,
           res_headers = [(''content-type'', ''application/json'')],
           res_body = JSON_stringify (number_text rt) ''  ''
             (JObj [(''error'', JStr ''Server misconfigured: REDDIT_BRIDGE_URL not set.'')])\<rparr> \<and>
      run_outcome (handler rt env request) =
        Fulfilled (json rt (JObj [(''error'',
               JStr ''Server misconfigured: REDDIT_BRIDGE_URL not set.'')]) 500) \<and>
      run_outcome (handler rt env request) =
        run_outcome (handler rt (env\<lparr>REDDIT_BRIDGE_URL := None\<rparr>) request))"
proof (intro conjI impI ballI allI)
  assume a: "MCP_WRAPPER_KEY env = Some []"
  note s = handler_same_behaviour[OF handler_try_empty_wrapper_key[OF a], of rt request]
  from s show "run_calls (handler rt env request) =
        run_calls (handler rt (env\<lparr>MCP_WRAPPER_KEY := None\<rparr>) request)"
    and "run_body_used (handler rt env request) =
        run_body_used (handler rt (env\<lparr>MCP_WRAPPER_KEY := None\<rparr>) request)"
    and "run_outcome (handler rt env request) =
        run_outcome (handler rt (env\<lparr>MCP_WRAPPER_KEY := None\<rparr>) request)"
    by simp_all
  fix res assume o: "run_outcome (handler rt env request) = Fulfilled res"
  from a have "auth_passed env request" by (simp add: auth_passed_def configured_def)
  from this o show "res_status res \<noteq> 401" by (rule status_not_401)
next
  assume a: "REDDIT_BRIDGE_BYPASS_SECRET env = Some []"
  note s = handler_same_behaviour[OF handler_try_empty_bypass[OF a], of rt request]
  from s show "run_calls (handler rt env request) =
        run_calls (handler rt (env\<lparr>REDDIT_BRIDGE_BYPASS_SECRET := None\<rparr>) request)"
    and "run_body_used (handler rt env request) =
        run_body_used (handler rt (env\<lparr>REDDIT_BRIDGE_BYPASS_SECRET := None\<rparr>) request)"
    and "run_outcome (handler rt env request) =
        run_outcome (handler rt (env\<lparr>REDDIT_BRIDGE_BYPASS_SECRET := None\<rparr>) request)"
    by simp_all
  fix c assume "c \<in> set (run_calls (handler rt env request))"
  then have "fetch_headers c = upstream_headers env" by (rule calls_headers)
  with a show "map_of (fetch_headers c) ''x-vercel-protection-bypass'' = None"
    by (simp add: upstream_headers_def)
next
  assume a: "REDDIT_BRIDGE_URL env = Some [] \<and> request_method request = ''POST'' \<and>
      auth_passed env request"
  then have t: "handler_try rt env request =
      \<lparr>run_env = env, run_body_used = False, run_calls = [],
       run_outcome = Fulfilled (json rt (JObj [(''error'',
               JStr ''Server misconfigured: REDDIT_BRIDGE_URL not set.'')]) 500)\<rparr>"
    unfolding handler_try_def auth_guard by simp
  from a have t': "handler_try rt (env\<lparr>REDDIT_BRIDGE_URL := None\<rparr>) request =
      \<lparr>run_env = env\<lparr>REDDIT_BRIDGE_URL := None\<rparr>, run_body_used = False, run_calls = [],
       run_outcome = Fulfilled (json rt (JObj [(''error'',
               JStr ''Server misconfigured: REDDIT_BRIDGE_URL not set.'')]) 500)\<rparr>"
    unfolding handler_try_def auth_guard by (simp add: auth_passed_def)
  from t show "run_calls (handler rt env request) = []" by (simp add: handler_effects)
  from t show o: "run_outcome (handler rt env request) =
        Fulfilled (json rt (JObj [(''error'',
               JStr ''Server misconfigured: REDDIT_BRIDGE_URL not set.'')]) 500)"
    by (simp add: handler_outcome(1))
  then show "run_outcome (handler rt env request) =
        Fulfilled
          \<lparr>res_status = 500,
           res_headers = [(''content-type'', ''application/json'')],
           res_body = JSON_stringify (number_text rt) ''  ''
             (JObj [(''error'', JStr ''Server misconfigured: REDDIT_BRIDGE_URL not set.'')])\<rparr>"
    by (simp add: json_fields(1))
  from t' have "run_outcome (handler rt (env\<lparr>REDDIT_BRIDGE_URL := None\<rparr>) request) =
        Fulfilled (json rt (JObj [(''error'',
               JStr ''Server misconfigured: REDDIT_BRIDGE_URL not set.'')]) 500)"
    by (simp add: handler_outcome(1))
  with o show "run_outcome (handler rt env request) =
        run_outcome (handler rt (env\<lparr>REDDIT_BRIDGE_URL := None\<rparr>) request)"
    by simp
qed

theorem empty_string_variables_witness:
  \<open>run_outcome (handler (demo_runtime Pending) (demo_env\<lparr>MCP_WRAPPER_KEY := Some []\<rparr>)
      \<lparr>request_method = ''POST'', headers_get = Map.empty, request_json = Rejected (Thrown_value JNull)\<rparr>)
    = run_outcome (handler (demo_runtime Pending) (demo_env\<lparr>MCP_WRAPPER_KEY := None\<rparr>)
      \<lparr>request_method = ''POST'', headers_get = Map.empty, request_json = Rejected (Thrown_value JNull)\<rparr>) \<and>
   map (\<lambda>c. map_of (fetch_headers c) ''x-vercel-protection-bypass'')
      (run_calls (handler (demo_runtime Pending)
        (demo_env\<lparr>REDDIT_BRIDGE_BYPASS_SECRET := Some []\<rparr>)
        (demo_request ''POST'' (Fulfilled demo_body))))
     = [None] \<and>
   run_outcome (handler (demo_runtime Pending) (demo_env\<lparr>REDDIT_BRIDGE_URL := Some []\<rparr>)
      (demo_request ''POST'' (Fulfilled demo_body)))
     = Fulfilled
         \<lparr>res_status = 500,
          res_headers = [(''content-type'', ''application/json'')],
          res_body = Some (''{'' @ [CHR 0x0A] @
            ''  "error": "Server misconfigured: REDDIT_BRIDGE_URL not set."'' @ [CHR 0x0A] @
            ''}'')\<rparr>\<close>
proof -
  note e = empty_string_variables[where rt = "demo_runtime Pending"]
  have k1: "MCP_WRAPPER_KEY (demo_env\<lparr>MCP_WRAPPER_KEY := Some []\<rparr>) = Some []" by simp
  have 1: "run_outcome (handler (demo_runtime Pending) (demo_env\<lparr>MCP_WRAPPER_KEY := Some []\<rparr>)
      \<lparr>request_method = ''POST'', headers_get = Map.empty, request_json = Rejected (Thrown_value JNull)\<rparr>)
    = run_outcome (handler (demo_runtime Pending) (demo_env\<lparr>MCP_WRAPPER_KEY := None\<rparr>)
      \<lparr>request_method = ''POST'', headers_get = Map.empty, request_json = Rejected (Thrown_value JNull)\<rparr>)"
    using k1 e[of "demo_env\<lparr>MCP_WRAPPER_KEY := Some []\<rparr>"
        "\<lparr>request_method = ''POST'', headers_get = Map.empty,
          request_json = Rejected (Thrown_value JNull)\<rparr>"]
    by simp
  have k2: "REDDIT_BRIDGE_BYPASS_SECRET (demo_env\<lparr>REDDIT_BRIDGE_BYPASS_SECRET := Some []\<rparr>) = Some []"
    by simp
  have v: "valid_request (demo_env\<lparr>REDDIT_BRIDGE_BYPASS_SECRET := Some []\<rparr>)
             (demo_request ''POST'' (Fulfilled demo_body))"
    using demo_valid by (simp add: valid_request_def auth_passed_def)
  have c: "\<forall>c \<in> set (run_calls (handler (demo_runtime Pending)
              (demo_env\<lparr>REDDIT_BRIDGE_BYPASS_SECRET := Some []\<rparr>)
              (demo_request ''POST'' (Fulfilled demo_body)))).
            map_of (fetch_headers c) ''x-vercel-protection-bypass'' = None"
    using k2 e[of "demo_env\<lparr>REDDIT_BRIDGE_BYPASS_SECRET := Some []\<rparr>"
        "demo_request ''POST'' (Fulfilled demo_body)"]
    by blast
  have 2: "map (\<lambda>c. map_of (fetch_headers c) ''x-vercel-protection-bypass'')
      (run_calls (handler (demo_runtime Pending)
        (demo_env\<lparr>REDDIT_BRIDGE_BYPASS_SECRET := Some []\<rparr>) (demo_request ''POST'' (Fulfilled demo_body))))
     = [None]"
    using c calls_of_valid[OF v, of "demo_runtime Pending"] by auto
  have k3: "REDDIT_BRIDGE_URL (demo_env\<lparr>REDDIT_BRIDGE_URL := Some []\<rparr>) = Some [] \<and>
      request_method (demo_request ''POST'' (Fulfilled demo_body)) = ''POST'' \<and>
      auth_passed (demo_env\<lparr>REDDIT_BRIDGE_URL := Some []\<rparr>) (demo_request ''POST'' (Fulfilled demo_body))"
    by (simp add: auth_passed_def configured_def demo_env_def demo_request_def)
  have s: \<open>JSON_stringify (number_text (demo_runtime Pending)) ''  ''
              (JObj [(''error'', JStr ''Server misconfigured: REDDIT_BRIDGE_URL not set.'')])
           = Some (''{'' @ [CHR 0x0A] @
            ''  "error": "Server misconfigured: REDDIT_BRIDGE_URL not set."'' @ [CHR 0x0A] @
            ''}'')\<close>
    by (simp add: JSON_stringify_def wrap_def json_member_def quote_json_def quote_char_def)
  have 3: "run_outcome (handler (demo_runtime Pending) (demo_env\<lparr>REDDIT_BRIDGE_URL := Some []\<rparr>)
      (demo_request ''POST'' (Fulfilled demo_body)))
     = Fulfilled
          \<lparr>res_status = 500,
           res_headers = [(''content-type'', ''application/json'')],
           res_body = JSON_stringify (number_text (demo_runtime Pending)) ''  ''
             (JObj [(''error'', JStr ''Server misconfigured: REDDIT_BRIDGE_URL not set.'')])\<rparr>"
    using k3 e[of "demo_env\<lparr>REDDIT_BRIDGE_URL := Some []\<rparr>" "demo_request ''POST'' (Fulfilled demo_body)"]
    by simp
  from 1 2 3[unfolded s] show ?thesis by simp
qed

section \<open>Upstream dispatch\<close>

text \<open>
  C4. A valid request makes exactly one call: a POST to the configured upstream URL, with
  the header \<^verbatim>\<open>content-type: application/json\<close>, with the header
  \<^verbatim>\<open>x-vercel-protection-bypass\<close> carrying the bypass secret if and only if that secret
  is configured, and with a body that is the JSON text of the object holding the strings
  \<^verbatim>\<open>subreddit\<close> and \<^verbatim>\<open>query\<close> and those of \<^verbatim>\<open>size\<close>, \<^verbatim>\<open>before\<close>, \<^verbatim>\<open>after\<close> that
  the parsed body has, each copied as it is; an absent optional field is left out.
\<close>

theorem upstream_dispatch:
  assumes "valid_request env request"
    and "REDDIT_BRIDGE_URL env = Some u" and "request_json request = Fulfilled b"
  shows "\<exists>call s q.
      run_calls (handler rt env request) = [call] \<and>
      read_prop b ''subreddit'' = JStr s \<and> read_prop b ''query'' = JStr q \<and>
      fetch_url call = u \<and> fetch_method call = ''POST'' \<and>
      map_of (fetch_headers call) ''content-type'' = Some ''application/json'' \<and>
      map_of (fetch_headers call) ''x-vercel-protection-bypass'' =
        (if configured (REDDIT_BRIDGE_BYPASS_SECRET env)
         then REDDIT_BRIDGE_BYPASS_SECRET env else None) \<and>
      fetch_body call =
        JSON_stringify (number_text rt) []
          (JObj ([(''subreddit'', JStr s), (''query'', JStr q)] @
                 filter (\<lambda>(k, v). v \<noteq> JUndefined)
                   [(''size'', read_prop b ''size''),
                    (''before'', read_prop b ''before''),
                    (''after'', read_prop b ''after'')])) \<and>
      fetch_body call \<noteq> None"
proof -
  from calls_of_valid[OF assms(1), of rt] assms(2,3)
  have calls: "run_calls (handler rt env request) = [upstream_call rt env u b]" by auto
  from assms(1,3) have "has_string_fields b"
    by (simp add: valid_request_def)
  then obtain s q where sq: "read_prop b ''subreddit'' = JStr s" "read_prop b ''query'' = JStr q"
    unfolding has_string_fields_def
    by (cases "read_prop b ''subreddit''"; cases "read_prop b ''query''") simp_all
  have hdr: "map_of (upstream_headers env) ''content-type'' = Some ''application/json''"
    "map_of (upstream_headers env) ''x-vercel-protection-bypass'' =
        (if configured (REDDIT_BRIDGE_BYPASS_SECRET env)
         then REDDIT_BRIDGE_BYPASS_SECRET env else None)"
    by (simp_all add: upstream_headers_def configured_def split: option.splits)
  have "JSON_stringify (number_text rt) [] (payload b) =
        JSON_stringify (number_text rt) []
          (JObj (filter (\<lambda>(k, v). v \<noteq> JUndefined)
             [(''subreddit'', JStr s), (''query'', JStr q), (''size'', read_prop b ''size''),
              (''before'', read_prop b ''before''), (''after'', read_prop b ''after'')]))"
    unfolding payload_def sq by (rule stringify_omits_undefined)
  then have body: "fetch_body (upstream_call rt env u b) =
        JSON_stringify (number_text rt) []
          (JObj ([(''subreddit'', JStr s), (''query'', JStr q)] @
                 filter (\<lambda>(k, v). v \<noteq> JUndefined)
                   [(''size'', read_prop b ''size''),
                    (''before'', read_prop b ''before''),
                    (''after'', read_prop b ''after'')]))"
    by (simp add: upstream_call_def)
  have some: "fetch_body (upstream_call rt env u b) \<noteq> None"
    by (simp add: upstream_call_def JSON_stringify_def payload_def)
  from calls sq hdr body some show ?thesis
    by (intro exI[of _ "upstream_call rt env u b"] exI[of _ s] exI[of _ q])
       (simp add: upstream_call_def)
qed

theorem upstream_dispatch_witness:
  \<open>run_calls (handler (demo_runtime Pending) demo_env (demo_request ''POST'' (Fulfilled demo_body)))
     = [\<lparr>fetch_url = ''https://bridge.example/api/search'',
         fetch_method = ''POST'',
         fetch_headers = [(''content-type'', ''application/json''),
                          (''x-vercel-protection-bypass'', ''s3'')],
         fetch_body = Some ''{"subreddit":"test","query":"foo","size":25}''\<rparr>]\<close>
proof -
  have u: "REDDIT_BRIDGE_URL demo_env = Some ''https://bridge.example/api/search''"
    by (simp add: demo_env_def)
  have b: "request_json (demo_request ''POST'' (Fulfilled demo_body)) = Fulfilled demo_body"
    by (simp add: demo_request_def)
  from upstream_dispatch[OF demo_valid u b, of "demo_runtime Pending"]
  obtain call where c: "run_calls (handler (demo_runtime Pending) demo_env
        (demo_request ''POST'' (Fulfilled demo_body))) = [call]"
    by blast
  have "call = upstream_call (demo_runtime Pending) demo_env
                 ''https://bridge.example/api/search'' demo_body"
    using c calls_of_valid[OF demo_valid, of "demo_runtime Pending"] u b by simp
  then show ?thesis unfolding c
    by (simp add: upstream_call_def upstream_headers_def payload_def demo_env_def demo_body_def
        demo_runtime_def JSON_stringify_def wrap_def json_member_def quote_json_def quote_char_def
        nat_text.simps)
qed

section \<open>What reaches the upstream\<close>

text \<open>Two valid requests with the same payload are handled alike.\<close>

lemma handler_depends_on_call:
  assumes "valid_request env r1" "valid_request env r2"
    and "request_json r1 = Fulfilled b1" "request_json r2 = Fulfilled b2"
    and "payload b1 = payload b2"
  shows "handler rt env r1 = handler rt env r2"
proof -
  from assms(1) obtain u1 c1 where 1: "request_method r1 = ''POST''" "auth_passed env r1"
    "REDDIT_BRIDGE_URL env = Some u1" "u1 \<noteq> []" "request_json r1 = Fulfilled c1"
    "has_string_fields c1" "\<not> nullish c1"
    by (rule valid_requestD)
  from assms(2) obtain u2 c2 where 2: "request_method r2 = ''POST''" "auth_passed env r2"
    "REDDIT_BRIDGE_URL env = Some u2" "u2 \<noteq> []" "request_json r2 = Fulfilled c2"
    "has_string_fields c2" "\<not> nullish c2"
    by (rule valid_requestD)
  from 1 2 assms(3,4) have eq: "u2 = u1" "c1 = b1" "c2 = b2" by simp_all
  have call: "upstream_call rt env u1 b1 = upstream_call rt env u1 b2"
    using assms(5) by (simp add: upstream_call_def)
  have e: "handler_try rt env r1 = handler_try rt env r2"
    unfolding handler_try_valid[OF 1] handler_try_valid[OF 2] eq call ..
  show ?thesis unfolding handler_def e ..
qed

text \<open>
  C8. The payload forwarded upstream is a function of the \<^verbatim>\<open>subreddit\<close>, \<^verbatim>\<open>query\<close>,
  \<^verbatim>\<open>size\<close>, \<^verbatim>\<open>before\<close> and \<^verbatim>\<open>after\<close> fields of the parsed body alone: two valid
  requests whose parsed bodies agree on these five fields have the same payload, make the
  same calls, and send the same serialised body, so no other field of the inbound body is
  forwarded.
\<close>

theorem payload_depends_on_five_fields:
  assumes "valid_request env r1" and "valid_request env r2"
    and "request_json r1 = Fulfilled b1" and "request_json r2 = Fulfilled b2"
    and "\<forall>k \<in> set [''subreddit'', ''query'', ''size'', ''before'', ''after''].
           read_prop b1 k = read_prop b2 k"
  shows "payload b1 = payload b2 \<and>
         run_calls (handler rt env r1) = run_calls (handler rt env r2) \<and>
         map fetch_body (run_calls (handler rt env r1)) =
           [JSON_stringify (number_text rt) [] (payload b2)]"
proof -
  from assms(5) have p: "payload b1 = payload b2" by (simp add: payload_def)
  from assms(1-4) p have "handler rt env r1 = handler rt env r2"
    by (rule handler_depends_on_call)
  moreover from calls_of_valid[OF assms(2), of rt] assms(4)
  have "map fetch_body (run_calls (handler rt env r2)) =
           [JSON_stringify (number_text rt) [] (payload b2)]"
    by (auto simp: upstream_call_def)
  ultimately show ?thesis using p by simp
qed

theorem payload_depends_on_five_fields_witness:
  \<open>map fetch_body (run_calls (handler (demo_runtime Pending) demo_env
      (demo_request ''POST'' (Fulfilled (JObj [(''token'', JStr ''secret''),
          (''subreddit'', JStr ''test''), (''query'', JStr ''foo''), (''size'', JNum 25),
          (''extra'', JArr [JNull])])))))
    = [Some ''{"subreddit":"test","query":"foo","size":25}'']\<close>
proof -
  let ?b1 = "JObj [(''token'', JStr ''secret''), (''subreddit'', JStr ''test''),
          (''query'', JStr ''foo''), (''size'', JNum 25), (''extra'', JArr [JNull])] :: nat jsvalue"
  have v1: "valid_request demo_env (demo_request ''POST'' (Fulfilled ?b1))"
    by (simp add: valid_request_def auth_passed_def configured_def has_string_fields_def
        demo_env_def demo_request_def)
  have j1: "request_json (demo_request ''POST'' (Fulfilled ?b1)) = Fulfilled ?b1"
    and j2: "request_json (demo_request ''POST'' (Fulfilled demo_body)) = Fulfilled demo_body"
    by (simp_all add: demo_request_def)
  have agree: "\<forall>k \<in> set [''subreddit'', ''query'', ''size'', ''before'', ''after''].
           read_prop ?b1 k = read_prop demo_body k"
    by (simp add: demo_body_def)
  have s: \<open>JSON_stringify (number_text (demo_runtime Pending)) [] (payload demo_body)
      = Some ''{"subreddit":"test","query":"foo","size":25}''\<close>
    by (simp add: payload_def demo_body_def demo_runtime_def JSON_stringify_def wrap_def
        json_member_def quote_json_def quote_char_def nat_text.simps)
  have "map fetch_body (run_calls (handler (demo_runtime Pending) demo_env
          (demo_request ''POST'' (Fulfilled ?b1))))
        = [JSON_stringify (number_text (demo_runtime Pending)) [] (payload demo_body)]"
    using payload_depends_on_five_fields[OF v1 demo_valid j1 j2 agree, of "demo_runtime Pending"]
    by blast
  then show ?thesis unfolding s .
qed

section \<open>The shape of every response\<close>

text \<open>
  C10. Every response the handler returns comes from the one constructor \<^verbatim>\<open>json\<close>
  applied to an outcome object and a status: it carries exactly the header
  \<^verbatim>\<open>content-type: application/json\<close>, and its body is the serialisation, with an
  indentation of two spaces, of that object. The status is 405, 401, 500, 400, 502 or 200,
  and the object has the keys \<^verbatim>\<open>error\<close>; or \<^verbatim>\<open>error\<close>, \<^verbatim>\<open>status\<close>, \<^verbatim>\<open>detail\<close>; or
  \<^verbatim>\<open>ok\<close>, \<^verbatim>\<open>bridge_status\<close>, \<^verbatim>\<open>bridge_url\<close>, \<^verbatim>\<open>data\<close>; or \<^verbatim>\<open>error\<close>, \<^verbatim>\<open>detail\<close>.
\<close>

theorem every_response_is_json:
  assumes "run_outcome (handler rt env request) = Fulfilled res"
  shows "res_headers res = [(''content-type'', ''application/json'')] \<and>
   (\<exists>kvs st. res = json rt (JObj kvs) st \<and>
      res_status res = st \<and>
      st \<in> {405, 401, 500, 400, 502, 200} \<and>
      map fst kvs \<in> {[''error''], [''error'', ''status'', ''detail''],
                      [''ok'', ''bridge_status'', ''bridge_url'', ''data''],
                      [''error'', ''detail'']} \<and>
      res_body res = JSON_stringify (number_text rt) ''  '' (JObj kvs) \<and>
      res_body res \<noteq> None)"
proof -
  define outcome where "outcome r \<longleftrightarrow>
    (\<exists>kvs st. r = json rt (JObj kvs) st \<and>
      st \<in> {405, 401, 500, 400, 502, 200} \<and>
      map fst kvs \<in> {[''error''], [''error'', ''status'', ''detail''],
                      [''ok'', ''bridge_status'', ''bridge_url'', ''data''],
                      [''error'', ''detail'']})" for r
  have I: "outcome (json rt (JObj kvs) st)"
    if "st \<in> {405, 401, 500, 400, 502, 200}"
      and "map fst kvs \<in> {[''error''], [''error'', ''status'', ''detail''],
                      [''ok'', ''bridge_status'', ''bridge_url'', ''data''],
                      [''error'', ''detail'']}" for kvs st
    unfolding outcome_def using that by (intro exI[of _ kvs] exI[of _ st]) simp
  have tr: "case run_outcome (handler_try rt env request) of
               Pending \<Rightarrow> True
             | Rejected err \<Rightarrow> True
             | Fulfilled r \<Rightarrow> outcome r"
    unfolding handler_try_def
    by (simp add: I Let_def split: option.splits promise.splits)
  have "outcome res"
    using tr assms unfolding handler_def
    by (auto simp: I split: promise.splits)
  then obtain kvs st where k: "res = json rt (JObj kvs) st"
      "st \<in> {405, 401, 500, 400, 502, 200}"
      "map fst kvs \<in> {[''error''], [''error'', ''status'', ''detail''],
                      [''ok'', ''bridge_status'', ''bridge_url'', ''data''],
                      [''error'', ''detail'']}"
    unfolding outcome_def by (elim exE conjE) (rule that)
  from k(2,3) show ?thesis
    unfolding k(1) json_fields(3)
    by (intro conjI exI[of _ kvs] exI[of _ st])
       (simp_all add: json_fields(2,4) stringify_object_Some)
qed

theorem every_response_is_json_witness:
  \<open>res_body (json (demo_runtime Pending) (JObj [(''error'', JStr ''Method not allowed. Use POST.'')]) 405)
     = Some (''{'' @ [CHR 0x0A] @ ''  "error": "Method not allowed. Use POST."'' @ [CHR 0x0A] @ ''}'')
   \<and> res_headers (json (demo_runtime Pending) (JObj [(''error'', JStr ''Method not allowed. Use POST.'')]) 405)
     = [(''content-type'', ''application/json'')]
   \<and> run_outcome (handler (demo_runtime Pending) demo_env (demo_request ''GET'' Pending))
     = Fulfilled
         \<lparr>res_status = 405,
          res_headers = [(''content-type'', ''application/json'')],
          res_body = Some (''{'' @ [CHR 0x0A] @
            ''  "error": "Method not allowed. Use POST."'' @ [CHR 0x0A] @ ''}'')\<rparr>\<close>
proof -
  have o: "run_outcome (handler (demo_runtime Pending) demo_env (demo_request ''GET'' Pending))
      = Fulfilled (json (demo_runtime Pending)
          (JObj [(''error'', JStr ''Method not allowed. Use POST.'')]) 405)"
    by (simp add: handler_def handler_try_def demo_request_def)
  have b: \<open>res_body (json (demo_runtime Pending)
          (JObj [(''error'', JStr ''Method not allowed. Use POST.'')]) 405)
     = Some (''{'' @ [CHR 0x0A] @ ''  "error": "Method not allowed. Use POST."'' @ [CHR 0x0A] @ ''}'')\<close>
    by (simp add: json_def JSON_stringify_def wrap_def json_member_def quote_json_def quote_char_def)
  from every_response_is_json[OF o]
  have h: "res_headers (json (demo_runtime Pending)
          (JObj [(''error'', JStr ''Method not allowed. Use POST.'')]) 405)
     = [(''content-type'', ''application/json'')]"
    by blast
  have \<open>json (demo_runtime Pending) (JObj [(''error'', JStr ''Method not allowed. Use POST.'')]) 405
      = \<lparr>res_status = 405,
          res_headers = [(''content-type'', ''application/json'')],
          res_body = Some (''{'' @ [CHR 0x0A] @
            ''  "error": "Method not allowed. Use POST."'' @ [CHR 0x0A] @ ''}'')\<rparr>\<close>
    using b h by (simp add: json_def)
  with o b h show ?thesis by simp
qed

section \<open>The catch-all\<close>

text \<open>
  The detail of the catch-all response, and what keeps the \<^verbatim>\<open>try\<close> block from
  finishing: it stays pending only when a promise it awaits does.
\<close>

lemma detail_cases:
  "(if js_typeof v = ''string'' then v else JStr ''Unknown error'') =
   JStr (case v of JStr m \<Rightarrow> m | _ \<Rightarrow> ''Unknown error'')"
  by (cases v) simp_all

lemma pending_sources:
  assumes "run_outcome (handler_try rt env request) = Pending"
  shows "request_json request = Pending \<or>
         (\<exists>c. c \<in> set (run_calls (handler_try rt env request)) \<and>
              (fetch rt c = Pending \<or>
               (\<exists>up. fetch rt c = Fulfilled up \<and> upstream_text up = Pending)))"
  using assms unfolding handler_try_def
  by (auto simp: Let_def split: if_splits option.splits promise.splits)

lemma handler_never_rejects: "run_outcome (handler rt env request) \<noteq> Rejected err"
  by (simp add: handler_def split: promise.splits)

text \<open>
  C3 as claimed: for every request and every environment the handler returns a response.
  An upstream call that never settles refutes it: the handler has no timeout, it awaits
  \<^verbatim>\<open>fetch\<close> for ever and returns nothing.
\<close>

theorem pending_fetch_gives_no_response:
  "run_outcome (handler (demo_runtime Pending) demo_env
      (demo_request ''POST'' (Fulfilled demo_body))) = Pending"
  by (simp add: handler_def handler_try_def demo_defs has_string_fields_def)

text \<open>
  C3 as amended: the handler never propagates a fault, whatever the request, the
  environment and the runtime; provided every promise it awaits settles
  (\<^verbatim>\<open>request.json()\<close>, \<^verbatim>\<open>fetch\<close>, \<^verbatim>\<open>upstream.text()\<close>), it returns a response; and any
  failure raised inside the pipeline (a network error, an unexpected exception) is caught
  at the top level and converted to the response with status 500 and body
  \<^verbatim>\<open>{error: "Unexpected server error.", detail: d}\<close>, where \<open>d\<close> is the exception's
  \<^verbatim>\<open>message\<close> when that is a string and \<^verbatim>\<open>"Unknown error"\<close> otherwise.
\<close>

theorem handler_catches_every_fault:
  "(\<forall>err. run_outcome (handler rt env request) \<noteq> Rejected err) \<and>
   (request_json request \<noteq> Pending \<and> (\<forall>c. fetch rt c \<noteq> Pending) \<and>
      (\<forall>c up. fetch rt c = Fulfilled up \<longrightarrow> upstream_text up \<noteq> Pending)
      \<longrightarrow> (\<exists>res. run_outcome (handler rt env request) = Fulfilled res)) \<and>
   (\<forall>err. raises rt env request err \<longrightarrow>
      run_outcome (handler rt env request) =
        Fulfilled
          \<lparr>res_status = 500,
           res_headers = [(''content-type'', ''application/json'')],
           res_body = JSON_stringify (number_text rt) ''  ''
             (JObj [(''error'', JStr ''Unexpected server error.''),
                    (''detail'', JStr (case thrown_message err of
                                         JStr m \<Rightarrow> m | _ \<Rightarrow> ''Unknown error''))])\<rparr>)"
proof (intro conjI allI impI)
  fix err show "run_outcome (handler rt env request) \<noteq> Rejected err"
    by (rule handler_never_rejects)
next
  assume settles: "request_json request \<noteq> Pending \<and> (\<forall>c. fetch rt c \<noteq> Pending) \<and>
      (\<forall>c up. fetch rt c = Fulfilled up \<longrightarrow> upstream_text up \<noteq> Pending)"
  have "run_outcome (handler_try rt env request) \<noteq> Pending"
    using pending_sources[of rt env request] settles by blast
  then have "run_outcome (handler rt env request) \<noteq> Pending"
    by (simp add: handler_def split: promise.splits)
  with handler_never_rejects[of rt env request]
  show "\<exists>res. run_outcome (handler rt env request) = Fulfilled res"
    by (cases "run_outcome (handler rt env request)") auto
next
  fix err assume "raises rt env request err"
  then have "run_outcome (handler_try rt env request) = Rejected err"
    by (simp add: raises_iff)
  then show "run_outcome (handler rt env request) =
        Fulfilled
          \<lparr>res_status = 500,
           res_headers = [(''content-type'', ''application/json'')],
           res_body = JSON_stringify (number_text rt) ''  ''
             (JObj [(''error'', JStr ''Unexpected server error.''),
                    (''detail'', JStr (case thrown_message err of
                                         JStr m \<Rightarrow> m | _ \<Rightarrow> ''Unknown error''))])\<rparr>"
    by (simp add: handler_outcome(3) detail_cases json_fields(1))
qed

theorem handler_catches_every_fault_witness:
  \<open>run_outcome (handler (demo_runtime (Rejected (Thrown_error (Some (JStr ''fetch failed'')) [])))
      demo_env (demo_request ''POST'' (Fulfilled demo_body)))
     = Fulfilled
         \<lparr>res_status = 500,
          res_headers = [(''content-type'', ''application/json'')],
          res_body = Some (''{'' @ [CHR 0x0A] @
            ''  "error": "Unexpected server error.",'' @ [CHR 0x0A] @
            ''  "detail": "fetch failed"'' @ [CHR 0x0A] @
            ''}'')\<rparr>
   \<and> run_outcome (handler (demo_runtime (Rejected (Thrown_error None []))) demo_env
      (demo_request ''POST'' (Fulfilled demo_body)))
     = Fulfilled
         \<lparr>res_status = 500,
          res_headers = [(''content-type'', ''application/json'')],
          res_body = Some (''{'' @ [CHR 0x0A] @
            ''  "error": "Unexpected server error.",'' @ [CHR 0x0A] @
            ''  "detail": ""'' @ [CHR 0x0A] @
            ''}'')\<rparr>
   \<and> run_outcome (handler (demo_runtime (Rejected (Thrown_value (JStr ''boom'')))) demo_env
      (demo_request ''POST'' (Fulfilled demo_body)))
     = Fulfilled
         \<lparr>res_status = 500,
          res_headers = [(''content-type'', ''application/json'')],
          res_body = Some (''{'' @ [CHR 0x0A] @
            ''  "error": "Unexpected server error.",'' @ [CHR 0x0A] @
            ''  "detail": "Unknown error"'' @ [CHR 0x0A] @
            ''}'')\<rparr>
   \<and> run_outcome (handler
        (demo_runtime (Fulfilled \<lparr>upstream_ok = True, upstream_status = 200,
           upstream_text = Rejected (Thrown_error (Some (JStr ''terminated'')) [])\<rparr>))
        demo_env (demo_request ''POST'' (Fulfilled demo_body)))
     = Fulfilled
         \<lparr>res_status = 500,
          res_headers = [(''content-type'', ''application/json'')],
          res_body = Some (''{'' @ [CHR 0x0A] @
            ''  "error": "Unexpected server error.",'' @ [CHR 0x0A] @
            ''  "detail": "terminated"'' @ [CHR 0x0A] @
            ''}'')\<rparr>
   \<and> (\<exists>res. run_outcome (handler (demo_runtime (Fulfilled (demo_upstream True 200 ''[]'')))
        demo_env (demo_request ''POST'' (Fulfilled demo_body))) = Fulfilled res)\<close>
proof -
  have r: "raises (demo_runtime (Rejected e)) demo_env
             (demo_request ''POST'' (Fulfilled demo_body)) e" for e
    by (simp add: raises_def auth_passed_def configured_def has_string_fields_def demo_defs)
  have r': "raises (demo_runtime (Fulfilled \<lparr>upstream_ok = True, upstream_status = 200,
                 upstream_text = Rejected e\<rparr>)) demo_env
             (demo_request ''POST'' (Fulfilled demo_body)) e" for e
    by (simp add: raises_def auth_passed_def configured_def has_string_fields_def demo_defs)
  have s: "request_json (demo_request ''POST'' (Fulfilled demo_body)) \<noteq> Pending \<and>
      (\<forall>c. fetch (demo_runtime (Fulfilled (demo_upstream True 200 ''[]''))) c \<noteq> Pending) \<and>
      (\<forall>c up. fetch (demo_runtime (Fulfilled (demo_upstream True 200 ''[]''))) c = Fulfilled up
          \<longrightarrow> upstream_text up \<noteq> Pending)"
    by (auto simp: demo_defs)
  note t = handler_catches_every_fault[where env = demo_env
      and request = "demo_request ''POST'' (Fulfilled demo_body)"]
  have 1: "run_outcome (handler (demo_runtime (Rejected e)) demo_env
        (demo_request ''POST'' (Fulfilled demo_body)))
      = Fulfilled
          \<lparr>res_status = 500,
           res_headers = [(''content-type'', ''application/json'')],
           res_body = JSON_stringify (number_text (demo_runtime (Rejected e))) ''  ''
             (JObj [(''error'', JStr ''Unexpected server error.''),
                    (''detail'', JStr (case thrown_message e of
                                         JStr m \<Rightarrow> m | _ \<Rightarrow> ''Unknown error''))])\<rparr>" for e
    using t[of "demo_runtime (Rejected e)"] r[of e] by blast
  have 2: "run_outcome (handler (demo_runtime (Fulfilled \<lparr>upstream_ok = True, upstream_status = 200,
                 upstream_text = Rejected e\<rparr>)) demo_env
        (demo_request ''POST'' (Fulfilled demo_body)))
      = Fulfilled
          \<lparr>res_status = 500,
           res_headers = [(''content-type'', ''application/json'')],
           res_body = JSON_stringify nat_text ''  ''
             (JObj [(''error'', JStr ''Unexpected server error.''),
                    (''detail'', JStr (case thrown_message e of
                                         JStr m \<Rightarrow> m | _ \<Rightarrow> ''Unknown error''))])\<rparr>" for e
    using t[of "demo_runtime (Fulfilled \<lparr>upstream_ok = True, upstream_status = 200,
                 upstream_text = Rejected e\<rparr>)"] r'[of e]
    by (simp add: demo_runtime_def)
  have 3: "\<exists>res. run_outcome (handler (demo_runtime (Fulfilled (demo_upstream True 200 ''[]'')))
        demo_env (demo_request ''POST'' (Fulfilled demo_body))) = Fulfilled res"
    using t[of "demo_runtime (Fulfilled (demo_upstream True 200 ''[]''))"] s by blast
  show ?thesis
    unfolding 1 2 using 3
    by (simp add: optional_prop_def JSON_stringify_def wrap_def json_member_def quote_json_def
        quote_char_def)
qed

end
